theory Spec2Isabelle
  imports Main
begin

section \<open>Package client: the segment-port REST client\<close>

subsection \<open>Entities\<close>

text \<open>
  The three structs of the client package, field for field. A field called \<open>Id\<close> or
  \<open>Type\<close> in the source carries the struct's name here, since \<open>Id\<close> is the identity
  relation of HOL. Go strings are byte sequences, as \<open>string\<close> is.
\<close>

record PortAddressBindingEntry =
  IpAddress :: string
  MacAddress :: string
  VlanId :: string

record PortAttachment =
  AllocateAddresses :: string
  AppId :: string
  ContextId :: string
  Attachment_Id :: string
  TrafficTag :: string
  Attachment_Type :: string

record SegmentPort =
  AddressBindings :: PortAddressBindingEntry
  AdminState :: string
  Attachment :: PortAttachment
  Description :: string
  DisplayName :: string
  SegmentPort_Id :: string
  ResourceType :: string

record ListSegmentPortsResponse =
  ResultCount :: int
  Results :: "SegmentPort list"

record PatchSegmentPortRequest =
  Patch_SegmentId :: string
  Patch_PortId :: string
  Patch_SegmentPort :: SegmentPort

subsection \<open>JSON documents and \<open>json.Marshal\<close>\<close>

text \<open>
  A JSON document as a tree. \<open>json.Marshal\<close> of a struct writes one member per field, in
  the order of declaration, under the name of the field's \<open>json\<close> tag; none of the tags
  has \<open>omitempty\<close>, so every member is always written, and a string field is a JSON
  string. The byte-level rendering (escapes, replacement of invalid UTF-8) is the
  library's and is not modelled: a \<open>JString\<close> holds the Go string.
\<close>

datatype json =
    JNull
  | JBool bool
  | JNumber int
  | JString string
  | JArray "json list"
  | JObject "(string \<times> json) list"

definition Marshal_PortAddressBindingEntry :: "PortAddressBindingEntry \<Rightarrow> json" where
  "Marshal_PortAddressBindingEntry e =
     JObject [(''ip_address'', JString (IpAddress e)),
              (''mac_address'', JString (MacAddress e)),
              (''vlan_id'', JString (VlanId e))]"

definition Marshal_PortAttachment :: "PortAttachment \<Rightarrow> json" where
  "Marshal_PortAttachment a =
     JObject [(''allocate_addresses'', JString (AllocateAddresses a)),
              (''app_id'', JString (AppId a)),
              (''context_id'', JString (ContextId a)),
              (''id'', JString (Attachment_Id a)),
              (''traffic_tag'', JString (TrafficTag a)),
              (''type'', JString (Attachment_Type a))]"

definition Marshal_SegmentPort :: "SegmentPort \<Rightarrow> json" where
  "Marshal_SegmentPort sp =
     JObject [(''address_bindings'', Marshal_PortAddressBindingEntry (AddressBindings sp)),
              (''admin_state'', JString (AdminState sp)),
              (''attachment'', Marshal_PortAttachment (Attachment sp)),
              (''description'', JString (Description sp)),
              (''display_name'', JString (DisplayName sp)),
              (''id'', JString (SegmentPort_Id sp)),
              (''resource_type'', JString (ResourceType sp))]"

text \<open>The member of an object document under a name; \<open>None\<close> for any other document.\<close>

fun member :: "json \<Rightarrow> string \<Rightarrow> json option" where
  "member (JObject kvs) k = map_of kvs k"
| "member _ k = None"

fun is_JArray :: "json \<Rightarrow> bool" where
  "is_JArray (JArray xs) = True"
| "is_JArray _ = False"

subsection \<open>Requests, responses and the libraries underneath\<close>

text \<open>
  \<open>net/url\<close> is outside the repository. Its three functions the builders call are
  parameters: \<open>url.Parse\<close>, the method \<open>(*URL).Parse\<close> that resolves a reference against
  a base, and \<open>(*URL).String\<close>. \<open>Inl\<close> is the error.
\<close>

record 'u net_url =
  url_Parse :: "string \<Rightarrow> string + 'u"
  URL_Parse :: "'u \<Rightarrow> string \<Rightarrow> string + 'u"
  URL_String :: "'u \<Rightarrow> string"

text \<open>
  A request body is either the bytes of a marshalled JSON document (kept as the
  document) or plain bytes. A header maps a name to its values, as \<open>http.Header\<close> does;
  the two names used, \<open>Authorization\<close> and \<open>Content-Type\<close>, are already in canonical
  form, so \<open>Set\<close> and \<open>Add\<close> store them as written.
\<close>

datatype Payload = JSONBytes json | RawBytes string

record Request =
  Method :: string
  URL :: string
  Header :: "string \<rightharpoonup> string list"
  Body :: "Payload option"

text \<open>
  A response body is a stream that its one reader consumes. It is represented by what
  each reader of the repository gets from it: \<open>io.ReadAll\<close>, and
  \<open>json.NewDecoder(body).Decode\<close> into a zero \<open>SegmentPort\<close> or a zero
  \<open>ListSegmentPortsResponse\<close>. \<open>Inl\<close> is the reader's error.
\<close>

record ResponseBody =
  ReadAll :: "string + string"
  Decode_SegmentPort :: "string + SegmentPort"
  Decode_ListSegmentPortsResponse :: "string + ListSegmentPortsResponse"

record Response =
  StatusCode :: int
  Status :: string
  Response_Body :: ResponseBody

text \<open>
  \<open>http.NewRequest\<close> parses the URL and returns a request with an empty header. The
  methods passed in this repository are the constants \<open>DELETE\<close>, \<open>GET\<close>, \<open>PATCH\<close> and
  \<open>POST\<close>, which pass its check of the method.
\<close>

definition http_NewRequest ::
  "'u net_url \<Rightarrow> string \<Rightarrow> string \<Rightarrow> Payload option \<Rightarrow> string + Request" where
  "http_NewRequest L method url body =
     (case url_Parse L url of
        Inl err \<Rightarrow> Inl err
      | Inr u \<Rightarrow> Inr \<lparr>Method = method, URL = url, Header = Map.empty, Body = body\<rparr>)"

definition Header_Set :: "string \<Rightarrow> string \<Rightarrow> Request \<Rightarrow> Request" where
  "Header_Set k v req = req\<lparr>Header := (Header req)(k \<mapsto> [v])\<rparr>"

definition Header_Add :: "string \<Rightarrow> string \<Rightarrow> Request \<Rightarrow> Request" where
  "Header_Add k v req =
     req\<lparr>Header := (Header req)(k \<mapsto> (case Header req k of None \<Rightarrow> [v] | Some vs \<Rightarrow> vs @ [v]))\<rparr>"

text \<open>
  \<open>SetBasicAuth\<close> sets \<open>Authorization\<close> to \<open>Basic\<close> and the standard base64 encoding,
  with padding, of \<open>username:password\<close>.
\<close>

definition base64_alphabet :: string where
  "base64_alphabet = ''ABCDEFGHIJKLMNOPQRSTUVWXYZabcdefghijklmnopqrstuvwxyz0123456789+/''"

definition base64_digit :: "nat \<Rightarrow> char" where
  "base64_digit n = base64_alphabet ! (n mod 64)"

fun base64_bytes :: "nat list \<Rightarrow> string" where
  "base64_bytes (a # b # c # rest) =
     [base64_digit (a div 4), base64_digit ((a mod 4) * 16 + b div 16),
      base64_digit ((b mod 16) * 4 + c div 64), base64_digit (c mod 64)] @ base64_bytes rest"
| "base64_bytes [a, b] =
     [base64_digit (a div 4), base64_digit ((a mod 4) * 16 + b div 16),
      base64_digit ((b mod 16) * 4), CHR ''='']"
| "base64_bytes [a] =
     [base64_digit (a div 4), base64_digit ((a mod 4) * 16), CHR ''='', CHR ''='']"
| "base64_bytes [] = []"

definition base64_EncodeToString :: "string \<Rightarrow> string" where
  "base64_EncodeToString s = base64_bytes (map of_char s)"

definition basicAuth :: "string \<Rightarrow> string \<Rightarrow> string" where
  "basicAuth username password = base64_EncodeToString (username @ '':'' @ password)"

definition SetBasicAuth :: "string \<Rightarrow> string \<Rightarrow> Request \<Rightarrow> Request" where
  "SetBasicAuth username password req =
     Header_Set ''Authorization'' (''Basic '' @ basicAuth username password) req"

subsection \<open>The four request builders\<close>

definition NewDeleteSegmentPortRequest ::
  "'u net_url \<Rightarrow> string \<Rightarrow> string \<Rightarrow> string \<Rightarrow> string + Request" where
  "NewDeleteSegmentPortRequest L server segment_id port_id =
     (case url_Parse L server of
        Inl err \<Rightarrow> Inl err
      | Inr serverURL \<Rightarrow>
          (let operationPath = ''/policy/api/v1/infra/segments/'' @ segment_id @ ''/ports/'' @ port_id
           in case URL_Parse L serverURL operationPath of
                Inl err \<Rightarrow> Inl err
              | Inr queryURL \<Rightarrow>
                  (case http_NewRequest L ''DELETE'' (URL_String L queryURL) None of
                     Inl err \<Rightarrow> Inl err
                   | Inr req \<Rightarrow> Inr req)))"

definition NewListSegmentPortsRequest ::
  "'u net_url \<Rightarrow> string \<Rightarrow> string \<Rightarrow> string \<Rightarrow> string \<Rightarrow> string + Request" where
  "NewListSegmentPortsRequest L server user pass segment_id =
     (case url_Parse L server of
        Inl err \<Rightarrow> Inl err
      | Inr serverURL \<Rightarrow>
          (let operationPath = ''/policy/api/v1/infra/segments/'' @ segment_id @ ''/ports''
           in case URL_Parse L serverURL operationPath of
                Inl err \<Rightarrow> Inl err
              | Inr queryURL \<Rightarrow>
                  (case http_NewRequest L ''GET'' (URL_String L queryURL) None of
                     Inl err \<Rightarrow> Inl err
                   | Inr req \<Rightarrow> Inr (SetBasicAuth user pass req))))"

definition NewGetSegmentPortRequest ::
  "'u net_url \<Rightarrow> string \<Rightarrow> string \<Rightarrow> string \<Rightarrow> string \<Rightarrow> string \<Rightarrow> string + Request" where
  "NewGetSegmentPortRequest L server user pass segment_id port_id =
     (case url_Parse L server of
        Inl err \<Rightarrow> Inl err
      | Inr serverURL \<Rightarrow>
          (let operationPath = ''/policy/api/v1/infra/segments/'' @ segment_id @ ''/ports/'' @ port_id
           in case URL_Parse L serverURL operationPath of
                Inl err \<Rightarrow> Inl err
              | Inr queryURL \<Rightarrow>
                  (case http_NewRequest L ''GET'' (URL_String L queryURL) None of
                     Inl err \<Rightarrow> Inl err
                   | Inr req \<Rightarrow> Inr (SetBasicAuth user pass req))))"

text \<open>
  \<open>json.Marshal\<close> of a \<open>SegmentPort\<close> cannot fail (every field is a string or a struct
  of strings), so the builder's check of its error has no branch here.
\<close>

definition NewPatchSegmentPortRequest ::
  "'u net_url \<Rightarrow> string \<Rightarrow> string \<Rightarrow> string \<Rightarrow> PatchSegmentPortRequest \<Rightarrow> string + Request" where
  "NewPatchSegmentPortRequest L server user pass body =
     (case url_Parse L server of
        Inl err \<Rightarrow> Inl err
      | Inr serverURL \<Rightarrow>
          (let operationPath =
                 ''/policy/api/v1/infra/segments/'' @ Patch_SegmentId body @ ''/ports/'' @ Patch_PortId body
           in case URL_Parse L serverURL operationPath of
                Inl err \<Rightarrow> Inl err
              | Inr queryURL \<Rightarrow>
                  (let buf = Marshal_SegmentPort (Patch_SegmentPort body)
                   in case http_NewRequest L ''PATCH'' (URL_String L queryURL) (Some (JSONBytes buf)) of
                        Inl err \<Rightarrow> Inl err
                      | Inr req \<Rightarrow>
                          Inr (Header_Add ''Content-Type'' ''application/json''
                                 (SetBasicAuth user pass req)))))"

subsection \<open>The client and its request editors\<close>

text \<open>
  A request editor receives the request by pointer and returns an error or \<open>nil\<close>: here
  it returns the request as it leaves it, and the error if any. A doer
  (\<open>HttpRequestDoer\<close>) answers a request with an error or a response.
\<close>

type_synonym RequestEditorFn = "Request \<Rightarrow> Request \<times> string option"

type_synonym HttpRequestDoer = "Request \<Rightarrow> string + Response"

text \<open>
  The struct's field \<open>Client\<close> (an interface value, \<open>nil\<close> in a zero \<open>Client\<close>) is
  called \<open>Client_Client\<close> here.
\<close>

record Client =
  Server :: string
  Username :: string
  Password :: string
  Client_Client :: "HttpRequestDoer option"
  RequestEditors :: "RequestEditorFn list"

type_synonym ClientOption = "Client \<Rightarrow> string + Client"

text \<open>What a Go call ends in: it returns, or it panics.\<close>

datatype 'a outcome = Return 'a | Panic string

definition nil_dereference :: string where
  "nil_dereference = ''runtime error: invalid memory address or nil pointer dereference''"

fun apply_options :: "ClientOption list \<Rightarrow> Client \<Rightarrow> string + Client" where
  "apply_options [] client = Inr client"
| "apply_options (opt # opts) client =
     (case opt client of Inl err \<Rightarrow> Inl err | Inr client' \<Rightarrow> apply_options opts client')"

text \<open>\<open>http_Client\<close> is the doer that the zero \<open>http.Client\<close> is.\<close>

definition NewClient ::
  "HttpRequestDoer \<Rightarrow> string \<Rightarrow> string \<Rightarrow> string \<Rightarrow> ClientOption list \<Rightarrow> string + Client" where
  "NewClient http_Client server username password opts =
     (case apply_options opts
             \<lparr>Server = server, Username = username, Password = password,
              Client_Client = None, RequestEditors = []\<rparr> of
        Inl err \<Rightarrow> Inl err
      | Inr client \<Rightarrow>
          Inr (if Client_Client client = None
               then client\<lparr>Client_Client := Some http_Client\<rparr> else client))"

definition WithHTTPClient :: "HttpRequestDoer \<Rightarrow> ClientOption" where
  "WithHTTPClient doer = (\<lambda>c. Inr (c\<lparr>Client_Client := Some doer\<rparr>))"

definition WithRequestEditorFn :: "RequestEditorFn \<Rightarrow> ClientOption" where
  "WithRequestEditorFn fn = (\<lambda>c. Inr (c\<lparr>RequestEditors := RequestEditors c @ [fn]\<rparr>))"

text \<open>One \<open>for\<close> loop of \<open>applyEditors\<close>: it stops at the first editor that returns an error.\<close>

fun range_editors :: "RequestEditorFn list \<Rightarrow> Request \<Rightarrow> Request \<times> string option" where
  "range_editors [] req = (req, None)"
| "range_editors (r # rs) req =
     (case r req of
        (req', Some err) \<Rightarrow> (req', Some err)
      | (req', None) \<Rightarrow> range_editors rs req')"

definition applyEditors ::
  "Client \<Rightarrow> Request \<Rightarrow> RequestEditorFn list \<Rightarrow> Request \<times> string option" where
  "applyEditors c req additionalEditors =
     (case range_editors (RequestEditors c) req of
        (req', Some err) \<Rightarrow> (req', Some err)
      | (req', None) \<Rightarrow> range_editors additionalEditors req')"

text \<open>
  \<open>c.Client.Do(req)\<close>: a call through a \<open>nil\<close> interface value panics. The first
  component of the result lists the requests handed to the doer.
\<close>

definition Client_Do :: "Client \<Rightarrow> Request \<Rightarrow> Request list \<times> (string + Response) outcome" where
  "Client_Do c req =
     (case Client_Client c of
        None \<Rightarrow> ([], Panic nil_dereference)
      | Some doer \<Rightarrow> ([req], Return (doer req)))"

definition DeleteSegmentPort ::
  "'u net_url \<Rightarrow> Client \<Rightarrow> string \<Rightarrow> string \<Rightarrow> RequestEditorFn list
     \<Rightarrow> Request list \<times> (string + Response) outcome" where
  "DeleteSegmentPort L c segment_id port_id reqEditors =
     (case NewDeleteSegmentPortRequest L (Server c) segment_id port_id of
        Inl err \<Rightarrow> ([], Return (Inl err))
      | Inr req \<Rightarrow>
          (case applyEditors c req reqEditors of
             (req', Some err) \<Rightarrow> ([], Return (Inl err))
           | (req', None) \<Rightarrow> Client_Do c req'))"

definition ListSegmentPorts ::
  "'u net_url \<Rightarrow> Client \<Rightarrow> string \<Rightarrow> RequestEditorFn list
     \<Rightarrow> Request list \<times> (string + Response) outcome" where
  "ListSegmentPorts L c segment_id reqEditors =
     (case NewListSegmentPortsRequest L (Server c) (Username c) (Password c) segment_id of
        Inl err \<Rightarrow> ([], Return (Inl err))
      | Inr req \<Rightarrow>
          (case applyEditors c req reqEditors of
             (req', Some err) \<Rightarrow> ([], Return (Inl err))
           | (req', None) \<Rightarrow> Client_Do c req'))"

definition GetSegmentPort ::
  "'u net_url \<Rightarrow> Client \<Rightarrow> string \<Rightarrow> string \<Rightarrow> RequestEditorFn list
     \<Rightarrow> Request list \<times> (string + Response) outcome" where
  "GetSegmentPort L c segment_id port_id reqEditors =
     (case NewGetSegmentPortRequest L (Server c) (Username c) (Password c) segment_id port_id of
        Inl err \<Rightarrow> ([], Return (Inl err))
      | Inr req \<Rightarrow>
          (case applyEditors c req reqEditors of
             (req', Some err) \<Rightarrow> ([], Return (Inl err))
           | (req', None) \<Rightarrow> Client_Do c req'))"

definition PatchSegmentPort ::
  "'u net_url \<Rightarrow> Client \<Rightarrow> PatchSegmentPortRequest \<Rightarrow> RequestEditorFn list
     \<Rightarrow> Request list \<times> (string + Response) outcome" where
  "PatchSegmentPort L c body reqEditors =
     (case NewPatchSegmentPortRequest L (Server c) (Username c) (Password c) body of
        Inl err \<Rightarrow> ([], Return (Inl err))
      | Inr req \<Rightarrow>
          (case applyEditors c req reqEditors of
             (req', Some err) \<Rightarrow> ([], Return (Inl err))
           | (req', None) \<Rightarrow> Client_Do c req'))"

subsection \<open>What the specification says of dispatch\<close>

text \<open>
  The specification's words, written independently of the loops above: the hooks are
  taken in registration order, hook \<open>k\<close> sees the request as hooks \<open>0 .. k - 1\<close> left
  it, the error of the first hook that fails is returned and nothing is sent, and
  otherwise the request edited by all hooks is sent.
\<close>

definition edited_by :: "RequestEditorFn list \<Rightarrow> Request \<Rightarrow> Request" where
  "edited_by hooks req = fold (\<lambda>h r. fst (h r)) hooks req"

definition hook_error :: "RequestEditorFn list \<Rightarrow> Request \<Rightarrow> nat \<Rightarrow> string option" where
  "hook_error hooks req k = snd ((hooks ! k) (edited_by (take k hooks) req))"

definition first_hook_error :: "RequestEditorFn list \<Rightarrow> Request \<Rightarrow> string option" where
  "first_hook_error hooks req =
     (case filter (\<lambda>k. hook_error hooks req k \<noteq> None) [0..<length hooks] of
        [] \<Rightarrow> None
      | k # _ \<Rightarrow> hook_error hooks req k)"

definition hooks_then_dispatch ::
  "Client \<Rightarrow> Request \<Rightarrow> RequestEditorFn list \<Rightarrow> Request list \<times> (string + Response) outcome" where
  "hooks_then_dispatch c req extra =
     (let hooks = RequestEditors c @ extra
      in case first_hook_error hooks req of
           Some err \<Rightarrow> ([], Return (Inl err))
         | None \<Rightarrow>
             (case Client_Client c of
                None \<Rightarrow> ([], Panic nil_dereference)
              | Some doer \<Rightarrow> ([edited_by hooks req], Return (doer (edited_by hooks req)))))"

subsection \<open>A small instance of the URL library, to run examples\<close>

text \<open>
  It accepts every string; resolving an absolute path against \<open>scheme://host/...\<close>
  gives \<open>scheme://host\<close> followed by the path, and against a base without a scheme
  the path alone.
\<close>

definition origin_of :: "string \<Rightarrow> string" where
  "origin_of s =
     (let scheme = takeWhile (\<lambda>ch. ch \<noteq> CHR '':'') s;
          rest = dropWhile (\<lambda>ch. ch \<noteq> CHR '':'') s
      in if take 3 rest = ''://''
         then scheme @ ''://'' @ takeWhile (\<lambda>ch. ch \<noteq> CHR ''/'') (drop 3 rest)
         else [])"

definition plain_url :: "string net_url" where
  "plain_url =
     \<lparr>url_Parse = (\<lambda>s. Inr s),
      URL_Parse = (\<lambda>base ref. Inr (origin_of base @ ref)),
      URL_String = (\<lambda>u. u)\<rparr>"

section \<open>Package provider: the adapters\<close>

subsection \<open>What the plugin framework provides\<close>

text \<open>
  Diagnostics, as the adapters use them. \<open>Append\<close> skips a diagnostic that the list
  already holds; \<open>AddError\<close> and the attribute variants append one diagnostic.
\<close>

datatype severity = SeverityError | SeverityWarning

record Diagnostic =
  Severity :: severity
  Summary :: string
  Detail :: string
  AttributePath :: "string option"

type_synonym Diagnostics = "Diagnostic list"

definition HasError :: "Diagnostics \<Rightarrow> bool" where
  "HasError diags = list_ex (\<lambda>d. Severity d = SeverityError) diags"

fun Append :: "Diagnostics \<Rightarrow> Diagnostics \<Rightarrow> Diagnostics" where
  "Append diags [] = diags"
| "Append diags (d # rest) = Append (if d \<in> set diags then diags else diags @ [d]) rest"

definition AddError :: "string \<Rightarrow> string \<Rightarrow> Diagnostics \<Rightarrow> Diagnostics" where
  "AddError summary detail diags =
     Append diags [\<lparr>Severity = SeverityError, Summary = summary, Detail = detail,
                    AttributePath = None\<rparr>]"

definition AddAttributeError :: "string \<Rightarrow> string \<Rightarrow> string \<Rightarrow> Diagnostics \<Rightarrow> Diagnostics" where
  "AddAttributeError path summary detail diags =
     Append diags [\<lparr>Severity = SeverityError, Summary = summary, Detail = detail,
                    AttributePath = Some path\<rparr>]"

definition AddAttributeWarning :: "string \<Rightarrow> string \<Rightarrow> string \<Rightarrow> Diagnostics \<Rightarrow> Diagnostics" where
  "AddAttributeWarning path summary detail diags =
     Append diags [\<lparr>Severity = SeverityWarning, Summary = summary, Detail = detail,
                    AttributePath = Some path\<rparr>]"

text \<open>A \<open>types.String\<close> or \<open>types.Bool\<close>: null, unknown, or a known value.\<close>

datatype 'a attr = Null | Unknown | Known 'a

fun IsNull :: "'a attr \<Rightarrow> bool" where
  "IsNull Null = True"
| "IsNull _ = False"

fun IsUnknown :: "'a attr \<Rightarrow> bool" where
  "IsUnknown Unknown = True"
| "IsUnknown _ = False"

fun ValueString :: "string attr \<Rightarrow> string" where
  "ValueString (Known s) = s"
| "ValueString _ = []"

fun Bool_String :: "bool attr \<Rightarrow> string" where
  "Bool_String (Known True) = ''true''"
| "Bool_String (Known False) = ''false''"
| "Bool_String Null = ''<null>''"
| "Bool_String Unknown = ''<unknown>''"

text \<open>
  A plan, a state or a configuration of a request is read with \<open>Get(ctx, &target)\<close>:
  it is represented by the diagnostics that call reports and the value it leaves in the
  target. A response holds the diagnostics and the state; \<open>None\<close> is the state without
  the resource. \<open>State.Set\<close> converts a value with the schema, which is the
  framework's work: the diagnostics of the conversion are the parameter \<open>convert\<close>, and
  the state changes only when they hold no error.
\<close>

record 'm tfsdk_Data =
  Get_diags :: Diagnostics
  Get_value :: 'm

record 'm tfsdk_Response =
  Diagnostics :: Diagnostics
  State :: "'m option"

definition State_Set ::
  "('m \<Rightarrow> Diagnostics) \<Rightarrow> 'm \<Rightarrow> 'm tfsdk_Response \<Rightarrow> 'm tfsdk_Response" where
  "State_Set convert val resp =
     (let diags = convert val
      in resp\<lparr>Diagnostics := Append (Diagnostics resp) diags,
              State := (if HasError diags then State resp else Some val)\<rparr>)"

definition RemoveResource :: "'m tfsdk_Response \<Rightarrow> 'm tfsdk_Response" where
  "RemoveResource resp = resp\<lparr>State := None\<rparr>"

text \<open>Lines of \<open>tflog\<close>: level, message, fields.\<close>

datatype log_level = LevelDebug | LevelInfo | LevelError

type_synonym log_entry = "log_level \<times> string \<times> (string \<times> bool) list"

text \<open>
  What a call of an adapter did: the requests handed to the doer, the lines logged, and
  the response it returned, if it did not panic.
\<close>

record 'r run =
  requests :: "Request list"
  tflog :: "log_entry list"
  outcome :: "'r outcome"

text \<open>
  The provider data that \<open>Configure\<close> receives is an \<open>any\<close>: the two dynamic types that
  occur are \<open>*http.Client\<close> (known by its timeout, in seconds) and \<open>*client.Client\<close>.
\<close>

record http_Client =
  Timeout :: nat

datatype ProviderData = HTTP_Client http_Client | API_Client Client

subsection \<open>Conversion of an integer to a string\<close>

text \<open>
  \<open>string(i)\<close> of an \<open>int\<close> is the UTF-8 encoding of the code point \<open>i\<close>, and of
  \<open>U+FFFD\<close> when \<open>i\<close> is no valid code point.
\<close>

definition utf8_encode :: "nat \<Rightarrow> string" where
  "utf8_encode r =
     (if r < 0x80 then [char_of r]
      else if r < 0x800 then [char_of (0xC0 + r div 64), char_of (0x80 + r mod 64)]
      else if r < 0x10000 then
        [char_of (0xE0 + r div 4096), char_of (0x80 + (r div 64) mod 64),
         char_of (0x80 + r mod 64)]
      else
        [char_of (0xF0 + r div 262144), char_of (0x80 + (r div 4096) mod 64),
         char_of (0x80 + (r div 64) mod 64), char_of (0x80 + r mod 64)])"

definition int_to_string :: "int \<Rightarrow> string" where
  "int_to_string i =
     (if i < 0 \<or> 0x10FFFF < i \<or> (0xD800 \<le> i \<and> i \<le> 0xDFFF)
      then utf8_encode 0xFFFD else utf8_encode (nat i))"

subsection \<open>The segment-port resource\<close>

record segmentPortResource =
  Resource_client :: "Client option"

record segmentPortResourceModel =
  SegmentId :: "string attr"
  PortId :: "string attr"
  Model_SegmentPort :: SegmentPort

definition NewSegmentPortResource :: "unit \<Rightarrow> segmentPortResource" where
  "NewSegmentPortResource u = \<lparr>Resource_client = None\<rparr>"

text \<open>
  \<open>Configure\<close> has a pointer receiver: the resource it returns here is the receiver
  after the call.
\<close>

definition Resource_Configure ::
  "segmentPortResource \<Rightarrow> ProviderData option \<Rightarrow> segmentPortResource \<times> log_entry list" where
  "Resource_Configure r providerData =
     (case providerData of
        None \<Rightarrow> (r, [])
      | Some (API_Client client) \<Rightarrow> (r\<lparr>Resource_client := Some client\<rparr>, [])
      | Some _ \<Rightarrow> (r, [(LevelError, ''Unable to prepare client'', [])]))"

definition Resource_Metadata :: "string \<Rightarrow> string" where
  "Resource_Metadata providerTypeName = providerTypeName @ ''_segment_port''"

definition Create ::
  "'u net_url \<Rightarrow> (segmentPortResourceModel \<Rightarrow> Diagnostics) \<Rightarrow> segmentPortResource
     \<Rightarrow> segmentPortResourceModel tfsdk_Data \<Rightarrow> segmentPortResourceModel tfsdk_Response
     \<Rightarrow> segmentPortResourceModel tfsdk_Response run" where
  "Create L convert r req resp =
     (let log0 = [(LevelDebug, ''Preparing to create segment port resource'', [])];
          plan = Get_value req;
          resp1 = resp\<lparr>Diagnostics := Append (Diagnostics resp) (Get_diags req)\<rparr>
      in if HasError (Diagnostics resp1)
         then \<lparr>requests = [], tflog = log0, outcome = Return resp1\<rparr>
         else
           (let segment_id = ValueString (SegmentId plan);
                port_id = ValueString (PortId plan);
                segment_port = Model_SegmentPort plan;
                patchRequest = \<lparr>Patch_SegmentId = segment_id, Patch_PortId = port_id,
                                Patch_SegmentPort = segment_port\<rparr>
            in case Resource_client r of
                 None \<Rightarrow> \<lparr>requests = [], tflog = log0, outcome = Panic nil_dereference\<rparr>
               | Some c \<Rightarrow>
                   (case PatchSegmentPort L c patchRequest [] of
                      (sent, Panic msg) \<Rightarrow> \<lparr>requests = sent, tflog = log0, outcome = Panic msg\<rparr>
                    | (sent, Return (Inl err)) \<Rightarrow>
                        \<lparr>requests = sent, tflog = log0,
                         outcome = Return (resp1\<lparr>Diagnostics :=
                           AddError ''Unable to Create Segment Port'' err (Diagnostics resp1)\<rparr>)\<rparr>
                    | (sent, Return (Inr spResponse)) \<Rightarrow>
                        if StatusCode spResponse \<noteq> 200
                        then \<lparr>requests = sent, tflog = log0,
                              outcome = Return (resp1\<lparr>Diagnostics :=
                                AddError (''An invalid response was received. Code: ''
                                            @ int_to_string (StatusCode spResponse))
                                  (Status spResponse) (Diagnostics resp1)\<rparr>)\<rparr>
                        else
                          (let resp2 = State_Set convert plan resp1
                           in if HasError (Diagnostics resp2)
                              then \<lparr>requests = sent, tflog = log0, outcome = Return resp2\<rparr>
                              else \<lparr>requests = sent,
                                    tflog = log0 @ [(LevelDebug, ''Created segment port resource'',
                                                     [(''success'', True)])],
                                    outcome = Return resp2\<rparr>))))"

definition Read ::
  "'u net_url \<Rightarrow> (segmentPortResourceModel \<Rightarrow> Diagnostics) \<Rightarrow> segmentPortResource
     \<Rightarrow> segmentPortResourceModel tfsdk_Data \<Rightarrow> segmentPortResourceModel tfsdk_Response
     \<Rightarrow> segmentPortResourceModel tfsdk_Response run" where
  "Read L convert r req resp =
     (let log0 = [(LevelDebug, ''Preparing to read item resource'', [])];
          state = Get_value req;
          resp1 = resp\<lparr>Diagnostics := Append (Diagnostics resp) (Get_diags req)\<rparr>
      in if HasError (Diagnostics resp1)
         then \<lparr>requests = [], tflog = log0, outcome = Return resp1\<rparr>
         else
           (case Resource_client r of
              None \<Rightarrow> \<lparr>requests = [], tflog = log0, outcome = Panic nil_dereference\<rparr>
            | Some c \<Rightarrow>
                (case GetSegmentPort L c (ValueString (SegmentId state))
                        (ValueString (PortId state)) [] of
                   (sent, Panic msg) \<Rightarrow> \<lparr>requests = sent, tflog = log0, outcome = Panic msg\<rparr>
                 | (sent, Return (Inl err)) \<Rightarrow>
                     \<lparr>requests = sent, tflog = log0,
                      outcome = Return (resp1\<lparr>Diagnostics :=
                        AddError ''Unable to Read Segment Port configuration'' err
                          (Diagnostics resp1)\<rparr>)\<rparr>
                 | (sent, Return (Inr spResponse)) \<Rightarrow>
                     if StatusCode spResponse = 404
                     then \<lparr>requests = sent, tflog = log0, outcome = Return (RemoveResource resp1)\<rparr>
                     else if StatusCode spResponse \<noteq> 200
                     then \<lparr>requests = sent, tflog = log0,
                           outcome = Return (resp1\<lparr>Diagnostics :=
                             AddError ''Unexpected HTTP error code received for segment port''
                               (Status spResponse) (Diagnostics resp1)\<rparr>)\<rparr>
                     else
                       (case Decode_SegmentPort (Response_Body spResponse) of
                          Inl err \<Rightarrow>
                            \<lparr>requests = sent, tflog = log0,
                             outcome = Return (resp1\<lparr>Diagnostics :=
                               AddError ''Invalid format received for Item'' err
                                 (Diagnostics resp1)\<rparr>)\<rparr>
                        | Inr newSegmentPort \<Rightarrow>
                            (let state' = \<lparr>SegmentId = SegmentId state, PortId = PortId state,
                                           Model_SegmentPort = newSegmentPort\<rparr>;
                                 resp2 = State_Set convert state' resp1
                             in if HasError (Diagnostics resp2)
                                then \<lparr>requests = sent, tflog = log0, outcome = Return resp2\<rparr>
                                else \<lparr>requests = sent,
                                      tflog = log0 @ [(LevelDebug,
                                        ''Finished reading segment port resource'',
                                        [(''success'', True)])],
                                      outcome = Return resp2\<rparr>)))))"

definition Update ::
  "'u net_url \<Rightarrow> (segmentPortResourceModel \<Rightarrow> Diagnostics) \<Rightarrow> segmentPortResource
     \<Rightarrow> segmentPortResourceModel tfsdk_Data \<Rightarrow> segmentPortResourceModel tfsdk_Response
     \<Rightarrow> segmentPortResourceModel tfsdk_Response run" where
  "Update L convert r req resp =
     (let log0 = [(LevelDebug, ''Preparing to update segment port resource'', [])];
          plan = Get_value req;
          resp1 = resp\<lparr>Diagnostics := Append (Diagnostics resp) (Get_diags req)\<rparr>
      in if HasError (Diagnostics resp1)
         then \<lparr>requests = [], tflog = log0, outcome = Return resp1\<rparr>
         else
           (let segment_id = ValueString (SegmentId plan);
                port_id = ValueString (PortId plan);
                segment_port = Model_SegmentPort plan;
                patchRequest = \<lparr>Patch_SegmentId = segment_id, Patch_PortId = port_id,
                                Patch_SegmentPort = segment_port\<rparr>
            in case Resource_client r of
                 None \<Rightarrow> \<lparr>requests = [], tflog = log0, outcome = Panic nil_dereference\<rparr>
               | Some c \<Rightarrow>
                   (case PatchSegmentPort L c patchRequest [] of
                      (sent, Panic msg) \<Rightarrow> \<lparr>requests = sent, tflog = log0, outcome = Panic msg\<rparr>
                    | (sent, Return (Inl err)) \<Rightarrow>
                        \<lparr>requests = sent, tflog = log0,
                         outcome = Return (resp1\<lparr>Diagnostics :=
                           AddError ''Unable to Create Segment Port'' err (Diagnostics resp1)\<rparr>)\<rparr>
                    | (sent, Return (Inr spResponse)) \<Rightarrow>
                        if StatusCode spResponse \<noteq> 200
                        then \<lparr>requests = sent, tflog = log0,
                              outcome = Return (resp1\<lparr>Diagnostics :=
                                AddError (''An invalid response was received. Code: ''
                                            @ int_to_string (StatusCode spResponse))
                                  (Status spResponse) (Diagnostics resp1)\<rparr>)\<rparr>
                        else
                          (let resp2 = State_Set convert plan resp1
                           in if HasError (Diagnostics resp2)
                              then \<lparr>requests = sent, tflog = log0, outcome = Return resp2\<rparr>
                              else \<lparr>requests = sent,
                                    tflog = log0 @ [(LevelDebug, ''Updated segment port resource'',
                                                     [(''success'', True)])],
                                    outcome = Return resp2\<rparr>))))"

definition Delete ::
  "'u net_url \<Rightarrow> segmentPortResource
     \<Rightarrow> segmentPortResourceModel tfsdk_Data \<Rightarrow> segmentPortResourceModel tfsdk_Response
     \<Rightarrow> segmentPortResourceModel tfsdk_Response run" where
  "Delete L r req resp =
     (let log0 = [(LevelDebug, ''Preparing to delete segment port resource'', [])];
          state = Get_value req;
          resp1 = resp\<lparr>Diagnostics := Append (Diagnostics resp) (Get_diags req)\<rparr>
      in if HasError (Diagnostics resp1)
         then \<lparr>requests = [], tflog = log0, outcome = Return resp1\<rparr>
         else
           (case Resource_client r of
              None \<Rightarrow> \<lparr>requests = [], tflog = log0, outcome = Panic nil_dereference\<rparr>
            | Some c \<Rightarrow>
                (case DeleteSegmentPort L c (ValueString (SegmentId state))
                        (ValueString (PortId state)) [] of
                   (sent, Panic msg) \<Rightarrow> \<lparr>requests = sent, tflog = log0, outcome = Panic msg\<rparr>
                 | (sent, Return (Inl err)) \<Rightarrow>
                     \<lparr>requests = sent, tflog = log0,
                      outcome = Return (resp1\<lparr>Diagnostics :=
                        AddError ''Unable to Delete Item'' err (Diagnostics resp1)\<rparr>)\<rparr>
                 | (sent, Return (Inr _)) \<Rightarrow>
                     \<lparr>requests = sent,
                      tflog = log0 @ [(LevelDebug, ''Deleted segment port resource'',
                                       [(''success'', True)])],
                      outcome = Return resp1\<rparr>)))"

subsection \<open>The segment-ports data source\<close>

text \<open>The provider package's own \<open>SegmentPort\<close>, of the same fields.\<close>

record provider_SegmentPort =
  p_AddressBindings :: PortAddressBindingEntry
  p_AdminState :: string
  p_Attachment :: PortAttachment
  p_Description :: string
  p_DisplayName :: string
  p_Id :: string
  p_ResourceType :: string

record segmentPortsDataSource =
  DataSource_client :: "Client option"

record segmentPortsDataSourceModel =
  DataSource_SegmentId :: string
  SegmentPorts :: "provider_SegmentPort list"

definition NewSegmentPortsDataSource :: "unit \<Rightarrow> segmentPortsDataSource" where
  "NewSegmentPortsDataSource u = \<lparr>DataSource_client = None\<rparr>"

text \<open>
  The body of the data source's \<open>Configure\<close>, on the variable \<open>d\<close> of the method: the
  value of \<open>d\<close> when the method returns, and the lines logged.
\<close>

definition DataSource_Configure_body ::
  "segmentPortsDataSource \<Rightarrow> ProviderData option \<Rightarrow> segmentPortsDataSource \<times> log_entry list" where
  "DataSource_Configure_body d providerData =
     (case providerData of
        None \<Rightarrow> (d, [])
      | Some (API_Client client) \<Rightarrow> (d\<lparr>DataSource_client := Some client\<rparr>, [])
      | Some _ \<Rightarrow> (d, [(LevelError, ''Unable to prepare client'', [])]))"

text \<open>
  The method is declared on the value \<open>segmentPortsDataSource\<close>, not on a pointer to
  it: a call copies the receiver into \<open>d\<close>, the body works on the copy, and the copy is
  dropped at the return. The data source returned here is the caller's after the call.
\<close>

definition DataSource_Configure ::
  "segmentPortsDataSource \<Rightarrow> ProviderData option \<Rightarrow> segmentPortsDataSource \<times> log_entry list" where
  "DataSource_Configure receiver providerData =
     (let d = receiver;
          (d', logged) = DataSource_Configure_body d providerData
      in (receiver, logged))"

definition DataSource_Metadata :: "string \<Rightarrow> string" where
  "DataSource_Metadata providerTypeName = providerTypeName @ ''_segment_ports''"

text \<open>
  The loop over \<open>segmentPorts.Results\<close>: each result is appended, without its resource
  type, which the literal does not set.
\<close>

definition append_segment ::
  "SegmentPort \<Rightarrow> segmentPortsDataSourceModel \<Rightarrow> segmentPortsDataSourceModel" where
  "append_segment segment state =
     state\<lparr>SegmentPorts := SegmentPorts state @
       [\<lparr>p_AddressBindings = AddressBindings segment,
         p_AdminState = AdminState segment,
         p_Attachment = Attachment segment,
         p_Description = Description segment,
         p_DisplayName = DisplayName segment,
         p_Id = SegmentPort_Id segment,
         p_ResourceType = []\<rparr>]\<rparr>"

definition DataSource_Read ::
  "'u net_url \<Rightarrow> (segmentPortsDataSourceModel \<Rightarrow> Diagnostics) \<Rightarrow> segmentPortsDataSource
     \<Rightarrow> segmentPortsDataSourceModel tfsdk_Data \<Rightarrow> segmentPortsDataSourceModel tfsdk_Response
     \<Rightarrow> segmentPortsDataSourceModel tfsdk_Response run" where
  "DataSource_Read L convert d req resp =
     (let log0 = [(LevelDebug, ''Preparing to read item data source'', [])];
          state = Get_value req;
          resp1 = resp\<lparr>Diagnostics := Append (Diagnostics resp) (Get_diags req)\<rparr>
      in case DataSource_client d of
           None \<Rightarrow> \<lparr>requests = [], tflog = log0, outcome = Panic nil_dereference\<rparr>
         | Some c \<Rightarrow>
             (case ListSegmentPorts L c (DataSource_SegmentId state) [] of
                (sent, Panic msg) \<Rightarrow> \<lparr>requests = sent, tflog = log0, outcome = Panic msg\<rparr>
              | (sent, Return (Inl err)) \<Rightarrow>
                  \<lparr>requests = sent, tflog = log0,
                   outcome = Return (resp1\<lparr>Diagnostics :=
                     AddError ''Unable to Read segment ports for '' err (Diagnostics resp1)\<rparr>)\<rparr>
              | (sent, Return (Inr portsResponse)) \<Rightarrow>
                  if StatusCode portsResponse \<noteq> 200
                  then \<lparr>requests = sent, tflog = log0,
                        outcome = Return (resp1\<lparr>Diagnostics :=
                          AddError ''Unexpected HTTP error code received for Item''
                            (Status portsResponse) (Diagnostics resp1)\<rparr>)\<rparr>
                  else
                    (case Decode_ListSegmentPortsResponse (Response_Body portsResponse) of
                       Inl err \<Rightarrow>
                         \<lparr>requests = sent, tflog = log0,
                          outcome = Return (resp1\<lparr>Diagnostics :=
                            AddError ''Invalid format received for segment ports'' err
                              (Diagnostics resp1)\<rparr>)\<rparr>
                     | Inr segmentPorts \<Rightarrow>
                         (let state = \<lparr>DataSource_SegmentId = [], SegmentPorts = []\<rparr>;
                              state = state\<lparr>DataSource_SegmentId := DataSource_SegmentId state\<rparr>;
                              state = fold append_segment (Results segmentPorts) state;
                              resp2 = State_Set convert state resp1
                          in \<lparr>requests = sent,
                              tflog = log0 @ [(LevelDebug,
                                ''Finished reading segment ports data source'',
                                [(''success'', True)])],
                              outcome = Return resp2\<rparr>))))"

subsection \<open>Schemas\<close>

text \<open>
  The attributes of the schemas by kind, with the flag \<open>Required\<close>; descriptions and
  plan modifiers are left out. An attribute map is a list of named attributes. The
  schema of the resource is that of \<open>resource_segment_port.go\<close>, whose description of
  \<open>address_bindings\<close> begins \<open>List of IP address bindings\<close>; the older
  \<open>segment_port_resource.go\<close> declares the same attribute a set of the same objects.
\<close>

datatype Attribute =
    StringAttribute bool
  | BoolAttribute bool
  | ListNestedAttribute bool "(string \<times> Attribute) list"
  | SetNestedAttribute bool "(string \<times> Attribute) list"

definition Resource_Schema :: "(string \<times> Attribute) list" where
  "Resource_Schema =
     [(''segment_id'', StringAttribute True),
      (''port_id'', StringAttribute True),
      (''segment_port'', SetNestedAttribute True
         [(''address_bindings'', ListNestedAttribute False
             [(''ip_address'', StringAttribute True),
              (''mac_address'', StringAttribute True),
              (''vlan_id'', StringAttribute True)]),
          (''admin_state'', StringAttribute True),
          (''attachment'', SetNestedAttribute True
             [(''id'', StringAttribute True),
              (''context_id'', StringAttribute False),
              (''traffic_tag'', StringAttribute False),
              (''app_id'', StringAttribute False),
              (''type'', StringAttribute True)]),
          (''description'', StringAttribute False),
          (''display_name'', StringAttribute True),
          (''id'', StringAttribute True),
          (''resource_type'', StringAttribute True)])]"

definition DataSource_Schema :: "(string \<times> Attribute) list" where
  "DataSource_Schema = [(''segment_id'', StringAttribute True)]"

definition Provider_Schema :: "(string \<times> Attribute) list" where
  "Provider_Schema =
     [(''allow_insecure'', BoolAttribute False),
      (''username'', StringAttribute False),
      (''password'', StringAttribute False),
      (''host'', StringAttribute False)]"

fun attribute :: "(string \<times> Attribute) list \<Rightarrow> string list \<Rightarrow> Attribute option" where
  "attribute attrs [] = None"
| "attribute attrs [name] = map_of attrs name"
| "attribute attrs (name # path) =
     (case map_of attrs name of
        Some (ListNestedAttribute _ nested) \<Rightarrow> attribute nested path
      | Some (SetNestedAttribute _ nested) \<Rightarrow> attribute nested path
      | _ \<Rightarrow> None)"

fun is_ListNestedAttribute :: "Attribute \<Rightarrow> bool" where
  "is_ListNestedAttribute (ListNestedAttribute _ _) = True"
| "is_ListNestedAttribute _ = False"

section \<open>Package provider: the provider\<close>

record NsxtIntervlanRoutingProvider =
  version :: string

record NsxtIntervlanRoutingProviderModel =
  NsxtInsecure :: "bool attr"
  NsxtUsername :: "string attr"
  NsxtPassword :: "string attr"
  NsxtHost :: "string attr"

record ConfigureResponse =
  Configure_Diagnostics :: Diagnostics
  DataSourceData :: "ProviderData option"
  ResourceData :: "ProviderData option"

definition Provider_Metadata :: "NsxtIntervlanRoutingProvider \<Rightarrow> string \<times> string" where
  "Provider_Metadata p = (''nsxt-intervlan-routing'', version p)"

text \<open>The constructors the provider registers with the framework.\<close>

definition Resources :: "NsxtIntervlanRoutingProvider \<Rightarrow> (unit \<Rightarrow> segmentPortResource) list" where
  "Resources p = []"

definition DataSources :: "NsxtIntervlanRoutingProvider \<Rightarrow> (unit \<Rightarrow> segmentPortsDataSource) list" where
  "DataSources p = [NewSegmentPortsDataSource]"

subsection \<open>Resolution of the four settings\<close>

text \<open>
  Lines 141 to 201 of \<open>Configure\<close>: the environment first, the configuration over it
  where it is not null, then a warning for each setting that is empty, and the default
  in its place for host, username and password. The assignment of the default of
  \<open>insecure\<close> is commented out in the source, so that setting stays empty.
  \<open>getenv\<close> is \<open>os.Getenv\<close>: the empty string for a variable that is not set.
\<close>

record settings =
  insecure :: string
  hostname :: string
  username :: string
  password :: string

definition from_environment :: "(string \<Rightarrow> string) \<Rightarrow> settings" where
  "from_environment getenv =
     \<lparr>insecure = getenv ''NSXT_INSECURE'',
      hostname = getenv ''NSXT_HOSTNAME'',
      username = getenv ''NSXT_USERNAME'',
      password = getenv ''NSXT_PASSWORD''\<rparr>"

definition override_with_configuration ::
  "NsxtIntervlanRoutingProviderModel \<Rightarrow> settings \<Rightarrow> settings" where
  "override_with_configuration config s =
     \<lparr>insecure = (if \<not> IsNull (NsxtInsecure config) then Bool_String (NsxtInsecure config)
                   else insecure s),
      hostname = (if \<not> IsNull (NsxtHost config) then ValueString (NsxtHost config)
                  else hostname s),
      username = (if \<not> IsNull (NsxtUsername config) then ValueString (NsxtUsername config)
                  else username s),
      password = (if \<not> IsNull (NsxtPassword config) then ValueString (NsxtPassword config)
                  else password s)\<rparr>"

definition missing_detail :: "string \<Rightarrow> string \<Rightarrow> string \<Rightarrow> string" where
  "missing_detail what setting variable =
     ''The provider is using a default value as there is a missing or empty value for the ''
     @ what @ ''. '' @ ''Set the '' @ setting @ '' value in the configuration or use the ''
     @ variable @ '' environment variable. ''
     @ ''If either is already set, ensure the value is not empty.''"

definition warn_insecure :: "Diagnostics \<Rightarrow> Diagnostics" where
  "warn_insecure =
     AddAttributeWarning ''insecure''
       ''Missing NSX-T Manager API Insecure (using default value: false)''
       (missing_detail ''NSX-T Manager API insecure'' ''insecure'' ''NSXT_INSECURE'')"

definition warn_hostname :: "Diagnostics \<Rightarrow> Diagnostics" where
  "warn_hostname =
     AddAttributeWarning ''host''
       ''Missing NSX-T Manager API Hostname (using default value: 127.0.0.1)''
       (missing_detail ''NSX-T Manager API hostname'' ''host'' ''NSXT_HOSTNAME'')"

definition warn_username :: "Diagnostics \<Rightarrow> Diagnostics" where
  "warn_username =
     AddAttributeWarning ''username''
       ''Missing NSX-T API username (using default value: admin)''
       (missing_detail ''NSX-T API username'' ''username'' ''NSXT_USERNAME'')"

definition warn_password :: "Diagnostics \<Rightarrow> Diagnostics" where
  "warn_password =
     AddAttributeWarning ''password''
       ''Missing NSX-T API port (using default value: password)''
       (missing_detail ''NSX-T API password'' ''password'' ''NSXT_PASSWORD'')"

definition defaults_for_missing :: "settings \<Rightarrow> Diagnostics \<Rightarrow> settings \<times> Diagnostics" where
  "defaults_for_missing s diags =
     (let diags = (if insecure s = [] then warn_insecure diags else diags);
          diags = (if hostname s = [] then warn_hostname diags else diags);
          s = (if hostname s = [] then s\<lparr>hostname := ''127.0.0.1''\<rparr> else s);
          diags = (if username s = [] then warn_username diags else diags);
          s = (if username s = [] then s\<lparr>username := ''admin''\<rparr> else s);
          diags = (if password s = [] then warn_password diags else diags);
          s = (if password s = [] then s\<lparr>password := ''password''\<rparr> else s)
      in (s, diags))"

definition resolve_settings ::
  "(string \<Rightarrow> string) \<Rightarrow> NsxtIntervlanRoutingProviderModel \<Rightarrow> Diagnostics
     \<Rightarrow> settings \<times> Diagnostics" where
  "resolve_settings getenv config diags =
     defaults_for_missing (override_with_configuration config (from_environment getenv)) diags"

subsection \<open>The login request\<close>

text \<open>
  \<open>url.Values.Encode\<close> writes the keys in sorted order, \<open>j_password\<close> before
  \<open>j_username\<close>, each value escaped as a query component: letters, digits and
  \<open>-_.~\<close> stay, a space becomes \<open>+\<close>, any other byte \<open>%XX\<close>.
\<close>

definition is_unreserved :: "char \<Rightarrow> bool" where
  "is_unreserved ch =
     (let n = (of_char ch :: nat)
      in (48 \<le> n \<and> n \<le> 57) \<or> (65 \<le> n \<and> n \<le> 90) \<or> (97 \<le> n \<and> n \<le> 122)
         \<or> ch \<in> set ''-_.~'')"

definition upperhex :: "nat \<Rightarrow> char" where
  "upperhex n = ''0123456789ABCDEF'' ! (n mod 16)"

definition escape_byte :: "char \<Rightarrow> string" where
  "escape_byte ch =
     (if is_unreserved ch then [ch]
      else if ch = CHR '' '' then ''+''
      else [CHR ''%'', upperhex ((of_char ch :: nat) div 16), upperhex (of_char ch)])"

definition QueryEscape :: "string \<Rightarrow> string" where
  "QueryEscape s = concat (map escape_byte s)"

definition enc_creds :: "string \<Rightarrow> string \<Rightarrow> string" where
  "enc_creds user pass =
     ''j_password='' @ QueryEscape pass @ ''&j_username='' @ QueryEscape user"

subsection \<open>\<open>Configure\<close> of the provider\<close>

definition unknown_detail :: "string \<Rightarrow> string \<Rightarrow> string" where
  "unknown_detail what variable =
     ''The provider cannot create the NSX InterVLAN Routing client as there is an unknown configuration value for the API ''
     @ what @ ''. ''
     @ ''Either target apply the source of the value first, set the value statically in the configuration, or use the ''
     @ variable @ '' environment variable.''"

definition client_error_detail :: "string \<Rightarrow> string \<Rightarrow> string" where
  "client_error_detail doing err =
     ''An unexpected error occurred when '' @ doing @ ''. ''
     @ ''If the error is not clear, please contact the provider developers.''
     @ [CHR 0x0A, CHR 0x0A] @ ''NSX-T Client Error: '' @ err"

text \<open>
  What a call of \<open>Configure\<close> did, and the package variable \<open>Host\<close> after it. The
  variables \<open>Client\<close> and \<open>Auth\<close> of the package are never assigned: the method
  declares locals of the same names.
\<close>

record configure_run = "ConfigureResponse run" +
  Host :: string

text \<open>
  \<open>http_Do\<close> is \<open>Do\<close> of an \<open>http.Client\<close>, the network behind it included.
  \<open>convertBodyToMap\<close> is called on the body of a response of status 200; it has no
  effect and its result is dropped, so it is left out.

  In the branch of a status other than 200 the detail of the diagnostic is built from
  \<open>err.Error()\<close>, where \<open>err\<close> is the error of \<open>Client.Do\<close>, which is \<open>nil\<close> in this
  branch: the call panics before \<open>AddError\<close> is entered.
\<close>

definition Configure ::
  "'u net_url \<Rightarrow> (string \<Rightarrow> string) \<Rightarrow> (http_Client \<Rightarrow> Request \<Rightarrow> string + Response)
     \<Rightarrow> NsxtIntervlanRoutingProviderModel tfsdk_Data \<Rightarrow> ConfigureResponse \<Rightarrow> string
     \<Rightarrow> configure_run" where
  "Configure L getenv http_Do req resp Host0 =
     (let log0 = [(LevelInfo, ''Configuring NSX InterVLAN Routing client'', [])];
          config = Get_value req;
          diags = Append (Configure_Diagnostics resp) (Get_diags req)
      in if HasError diags
         then \<lparr>requests = [], tflog = log0,
               outcome = Return (resp\<lparr>Configure_Diagnostics := diags\<rparr>), Host = Host0\<rparr>
         else
      (let config = (if IsUnknown (NsxtInsecure config)
                     then config\<lparr>NsxtInsecure := Known False\<rparr> else config);
           diags = (if IsUnknown (NsxtHost config)
                    then AddAttributeError ''host'' ''Unknown NSX InterVLAN Routing host''
                           (unknown_detail ''host'' ''NSXT_HOST'') diags
                    else diags);
           diags = (if IsUnknown (NsxtUsername config)
                    then AddAttributeError ''username'' ''Unknown NSX InterVLAN Routing username''
                           (unknown_detail ''username'' ''NSXT_USERNAME'') diags
                    else diags);
           diags = (if IsUnknown (NsxtPassword config)
                    then AddAttributeError ''password'' ''Unknown NSX InterVLAN Routing password''
                           (unknown_detail ''password'' ''NSXT_PASSWORD'') diags
                    else diags)
       in if HasError diags
          then \<lparr>requests = [], tflog = log0,
                outcome = Return (resp\<lparr>Configure_Diagnostics := diags\<rparr>), Host = Host0\<rparr>
          else
      (let (s, diags) = resolve_settings getenv config diags
       in if HasError diags
          then \<lparr>requests = [], tflog = log0,
                outcome = Return (resp\<lparr>Configure_Diagnostics := diags\<rparr>), Host = Host0\<rparr>
          else
      (let log1 = log0 @ [(LevelDebug, ''Creating NSX-T API client'', [])];
           Client = \<lparr>Timeout = 10\<rparr>
       in case http_NewRequest L ''POST'' (hostname s @ ''/api/session/create'')
                 (Some (RawBytes (enc_creds (username s) (password s)))) of
            Inl err \<Rightarrow>
              \<lparr>requests = [], tflog = log1,
               outcome = Return (resp\<lparr>Configure_Diagnostics :=
                 AddError ''Error occurred configuring the client parameters''
                   (client_error_detail ''configuring the NSX-T API client'' err) diags\<rparr>),
               Host = hostname s\<rparr>
          | Inr request \<Rightarrow>
              (case http_Do Client request of
                 Inl err \<Rightarrow>
                   \<lparr>requests = [request], tflog = log1,
                    outcome = Return (resp\<lparr>Configure_Diagnostics :=
                      AddError ''Unable to Create NSX-T API Client''
                        (client_error_detail ''creating the NSX-T API client'' err) diags\<rparr>),
                    Host = hostname s\<rparr>
               | Inr response \<Rightarrow>
                   if StatusCode response = 200
                   then
                     (case ReadAll (Response_Body response) of
                        Inl err \<Rightarrow>
                          \<lparr>requests = [request], tflog = log1,
                           outcome = Return (resp\<lparr>Configure_Diagnostics :=
                             AddError ''Error reading the API response''
                               (client_error_detail ''reading the NSX-T API client response'' err)
                               diags\<rparr>),
                           Host = hostname s\<rparr>
                      | Inr body \<Rightarrow>
                          \<lparr>requests = [request],
                           tflog = log1 @ [(LevelInfo, ''Configured NSX-T client'',
                                            [(''success'', True)])],
                           outcome = Return (resp\<lparr>Configure_Diagnostics := diags,
                             DataSourceData := Some (HTTP_Client Client),
                             ResourceData := Some (HTTP_Client Client)\<rparr>),
                           Host = hostname s\<rparr>)
                   else
                     \<lparr>requests = [request], tflog = log1,
                      outcome = Panic nil_dereference, Host = hostname s\<rparr>)))))"

text \<open>
  The type names under which the framework knows what the provider registers: it calls
  each constructor of the two lists and asks the result for its \<open>Metadata\<close>, with the
  provider's type name.
\<close>

definition resource_types :: "NsxtIntervlanRoutingProvider \<Rightarrow> string list" where
  "resource_types p = map (\<lambda>new. Resource_Metadata (fst (Provider_Metadata p))) (Resources p)"

definition data_source_types :: "NsxtIntervlanRoutingProvider \<Rightarrow> string list" where
  "data_source_types p =
     map (\<lambda>new. DataSource_Metadata (fst (Provider_Metadata p))) (DataSources p)"

section \<open>Reading a plan or a state into the resource's model\<close>

text \<open>
  \<open>req.Plan.Get(ctx, &plan)\<close> and \<open>req.State.Get(ctx, &state)\<close> are calls of the plugin
  framework, which fills the Go value by reflection from the Terraform value of the plan
  or the state. What it needs of the target is in the declarations of the repository:
  the kinds of the fields and their \<open>tfsdk\<close> struct tags. A Terraform value:
\<close>

datatype tfvalue =
    TfNull
  | TfUnknown
  | TfString string
  | TfBool bool
  | TfList "tfvalue list"
  | TfSet "tfvalue list"
  | TfObject "(string \<times> tfvalue) list"

text \<open>
  A target type: the framework's \<open>types.String\<close> and \<open>types.Bool\<close>, a Go string, a
  slice, and a struct, given by its fields: the name, the \<open>tfsdk\<close> tag if the field has
  one, and the type.
\<close>

datatype go_type =
    types_String
  | types_Bool
  | go_string
  | go_slice go_type
  | go_struct "(string \<times> string option \<times> go_type) list"

text \<open>
  Whether the reflection succeeds. The framework's types take a null and an unknown
  value; a Go string takes neither; a slice takes a null value, and a list or a set whose
  elements its element type takes. A struct takes an object only, every field of the
  struct must carry a \<open>tfsdk\<close> tag, the tags and the attributes of the object must be
  the same names, and each field must take the attribute of its tag.
\<close>

fun BuildValue :: "go_type \<Rightarrow> tfvalue \<Rightarrow> bool" where
  "BuildValue types_String val =
     (case val of TfNull \<Rightarrow> True | TfUnknown \<Rightarrow> True | TfString _ \<Rightarrow> True | _ \<Rightarrow> False)"
| "BuildValue types_Bool val =
     (case val of TfNull \<Rightarrow> True | TfUnknown \<Rightarrow> True | TfBool _ \<Rightarrow> True | _ \<Rightarrow> False)"
| "BuildValue go_string val = (case val of TfString _ \<Rightarrow> True | _ \<Rightarrow> False)"
| "BuildValue (go_slice elem) val =
     (case val of
        TfNull \<Rightarrow> True
      | TfList vals \<Rightarrow> list_all (BuildValue elem) vals
      | TfSet vals \<Rightarrow> list_all (BuildValue elem) vals
      | _ \<Rightarrow> False)"
| "BuildValue (go_struct targetFields) val =
     (case val of
        TfObject objectFields \<Rightarrow>
          list_all (\<lambda>field. fst (snd field) \<noteq> None) targetFields
          \<and> set (map (\<lambda>field. fst (snd field)) targetFields)
              = set (map (\<lambda>attr. Some (fst attr)) objectFields)
          \<and> list_all (\<lambda>field.
                case fst (snd field) of
                  None \<Rightarrow> False
                | Some tag \<Rightarrow>
                    (case map_of objectFields tag of
                       None \<Rightarrow> False
                     | Some fieldVal \<Rightarrow> BuildValue (snd (snd field)) fieldVal)) targetFields
      | _ \<Rightarrow> False)"

text \<open>
  The structs of the repository that a plan or a state of the resource is read into.
  The three structs of the client package carry \<open>json\<close> tags and no \<open>tfsdk\<close> tag;
  \<open>segmentPortResourceModel\<close> tags its three fields.
\<close>

definition PortAddressBindingEntry_type :: go_type where
  "PortAddressBindingEntry_type =
     go_struct [(''IpAddress'', None, go_string), (''MacAddress'', None, go_string),
                (''VlanId'', None, go_string)]"

definition PortAttachment_type :: go_type where
  "PortAttachment_type =
     go_struct [(''AllocateAddresses'', None, go_string), (''AppId'', None, go_string),
                (''ContextId'', None, go_string), (''Id'', None, go_string),
                (''TrafficTag'', None, go_string), (''Type'', None, go_string)]"

definition SegmentPort_type :: go_type where
  "SegmentPort_type =
     go_struct [(''AddressBindings'', None, PortAddressBindingEntry_type),
                (''AdminState'', None, go_string),
                (''Attachment'', None, PortAttachment_type),
                (''Description'', None, go_string),
                (''DisplayName'', None, go_string),
                (''Id'', None, go_string),
                (''ResourceType'', None, go_string)]"

definition segmentPortResourceModel_type :: go_type where
  "segmentPortResourceModel_type =
     go_struct [(''SegmentId'', Some ''segment_id'', types_String),
                (''PortId'', Some ''port_id'', types_String),
                (''SegmentPort'', Some ''segment_port'', SegmentPort_type)]"

text \<open>
  \<open>Get\<close> of a plan or a state into a target that was declared with \<open>var\<close>. Where the
  reflection fails it reports one error, of summary \<open>Value Conversion Error\<close>, and leaves
  the target at its zero value. The detail of the error and the attribute it is attached
  to are the framework's choice: they are the parameters \<open>detail\<close> and \<open>place\<close>. So is
  \<open>populate\<close>, the Go value that a successful reflection builds.
\<close>

definition conversion_error :: "string \<Rightarrow> string option \<Rightarrow> Diagnostic" where
  "conversion_error detail place =
     \<lparr>Severity = SeverityError, Summary = ''Value Conversion Error'', Detail = detail,
      AttributePath = place\<rparr>"

definition Get ::
  "go_type \<Rightarrow> (tfvalue \<Rightarrow> 'm) \<Rightarrow> 'm \<Rightarrow> string \<Rightarrow> string option \<Rightarrow> tfvalue \<Rightarrow> 'm tfsdk_Data" where
  "Get target populate zero detail place raw =
     (if BuildValue target raw
      then \<lparr>Get_diags = [], Get_value = populate raw\<rparr>
      else \<lparr>Get_diags = [conversion_error detail place], Get_value = zero\<rparr>)"

definition zero_SegmentPort :: SegmentPort where
  "zero_SegmentPort =
     \<lparr>AddressBindings = \<lparr>IpAddress = [], MacAddress = [], VlanId = []\<rparr>,
      AdminState = [],
      Attachment = \<lparr>AllocateAddresses = [], AppId = [], ContextId = [], Attachment_Id = [],
                     TrafficTag = [], Attachment_Type = []\<rparr>,
      Description = [], DisplayName = [], SegmentPort_Id = [], ResourceType = []\<rparr>"

definition zero_segmentPortResourceModel :: segmentPortResourceModel where
  "zero_segmentPortResourceModel =
     \<lparr>SegmentId = Null, PortId = Null, Model_SegmentPort = zero_SegmentPort\<rparr>"

definition Resource_Get ::
  "(tfvalue \<Rightarrow> segmentPortResourceModel) \<Rightarrow> string \<Rightarrow> string option \<Rightarrow> tfvalue
     \<Rightarrow> segmentPortResourceModel tfsdk_Data" where
  "Resource_Get populate detail place raw =
     Get segmentPortResourceModel_type populate zero_segmentPortResourceModel detail place raw"

section \<open>Example values\<close>

text \<open>The segment port of \<open>child_example\<close> in \<open>examples/provider/provider.tf\<close>.\<close>

definition child_example :: SegmentPort where
  "child_example =
     \<lparr>AddressBindings = \<lparr>IpAddress = ''169.254.254.169'', MacAddress = ''00:50:56:ad:5e:64'',
                          VlanId = ''1001''\<rparr>,
      AdminState = ''UP'',
      Attachment = \<lparr>AllocateAddresses = [], AppId = ''Segment1001'',
                     ContextId = ''9765bf41-9725-4714-977e-7f7395920de2'', Attachment_Id = [],
                     TrafficTag = ''1001'', Attachment_Type = ''CHILD''\<rparr>,
      Description = ''GCVE-PA-VM-ESX-2 Child Port 1001'',
      DisplayName = ''GCVE-PA-VM-ESX-2.vmx@a274ac51-88f5-491f-a46f-840d409ce82f'',
      SegmentPort_Id = ''a274ac51-88f5-491f-a46f-840d409ce82f'',
      ResourceType = ''SegmentPort''\<rparr>"

text \<open>Two request editors: one adds a header, one refuses the request.\<close>

definition tag_hook :: "string \<Rightarrow> string \<Rightarrow> RequestEditorFn" where
  "tag_hook k v = (\<lambda>req. (Header_Add k v req, None))"

definition failing_hook :: "string \<Rightarrow> RequestEditorFn" where
  "failing_hook err = (\<lambda>req. (req, Some err))"

definition example_client :: "HttpRequestDoer \<Rightarrow> RequestEditorFn list \<Rightarrow> Client" where
  "example_client doer hooks =
     \<lparr>Server = ''https://nsx.example.com'', Username = ''admin'', Password = ''password'',
      Client_Client = Some doer, RequestEditors = hooks\<rparr>"

definition example_patch :: PatchSegmentPortRequest where
  "example_patch =
     \<lparr>Patch_SegmentId = ''seg-1'', Patch_PortId = ''port-1'', Patch_SegmentPort = child_example\<rparr>"

definition example_patch_request :: Request where
  "example_patch_request =
     \<lparr>Method = ''PATCH'',
      URL = ''https://nsx.example.com/policy/api/v1/infra/segments/seg-1/ports/port-1'',
      Header = [''Authorization'' \<mapsto> [''Basic YWRtaW46cGFzc3dvcmQ=''],
                ''Content-Type'' \<mapsto> [''application/json'']],
      Body = Some (JSONBytes (Marshal_SegmentPort child_example))\<rparr>"

definition example_get_request :: Request where
  "example_get_request =
     \<lparr>Method = ''GET'',
      URL = ''https://nsx.example.com/policy/api/v1/infra/segments/seg-1/ports/port-1'',
      Header = [''Authorization'' \<mapsto> [''Basic YWRtaW46cGFzc3dvcmQ='']],
      Body = None\<rparr>"

definition example_list_request :: Request where
  "example_list_request =
     \<lparr>Method = ''GET'',
      URL = ''https://nsx.example.com/policy/api/v1/infra/segments/seg-1/ports'',
      Header = [''Authorization'' \<mapsto> [''Basic YWRtaW46cGFzc3dvcmQ='']],
      Body = None\<rparr>"

definition example_delete_request :: Request where
  "example_delete_request =
     \<lparr>Method = ''DELETE'',
      URL = ''https://nsx.example.com/policy/api/v1/infra/segments/seg-1/ports/port-1'',
      Header = Map.empty,
      Body = None\<rparr>"

text \<open>
  A stored state (or a plan) of the child example as the Terraform value of the resource's
  schema, a doer that answers every request with one response, and the resource and the
  data source that use it through the example client without hooks.
\<close>

definition example_raw_segment_port :: tfvalue where
  "example_raw_segment_port =
     TfObject
       [(''address_bindings'',
           TfList [TfObject [(''ip_address'', TfString ''169.254.254.169''),
                             (''mac_address'', TfString ''00:50:56:ad:5e:64''),
                             (''vlan_id'', TfString ''1001'')]]),
        (''admin_state'', TfString ''UP''),
        (''attachment'',
           TfSet [TfObject [(''id'', TfNull),
                            (''context_id'', TfString ''9765bf41-9725-4714-977e-7f7395920de2''),
                            (''traffic_tag'', TfString ''1001''),
                            (''app_id'', TfString ''Segment1001''),
                            (''type'', TfString ''CHILD'')]]),
        (''description'', TfString ''GCVE-PA-VM-ESX-2 Child Port 1001''),
        (''display_name'',
           TfString ''GCVE-PA-VM-ESX-2.vmx@a274ac51-88f5-491f-a46f-840d409ce82f''),
        (''id'', TfString ''a274ac51-88f5-491f-a46f-840d409ce82f''),
        (''resource_type'', TfString ''SegmentPort'')]"

definition example_raw_state :: tfvalue where
  "example_raw_state =
     TfObject [(''segment_id'', TfString ''seg-1''),
               (''port_id'', TfString ''port-1''),
               (''segment_port'', TfSet [example_raw_segment_port])]"

definition answering :: "Response \<Rightarrow> HttpRequestDoer" where
  "answering response = (\<lambda>req. Inr response)"

definition example_resource :: "Response \<Rightarrow> segmentPortResource" where
  "example_resource response = \<lparr>Resource_client = Some (example_client (answering response) [])\<rparr>"

definition example_data_source :: "Response \<Rightarrow> segmentPortsDataSource" where
  "example_data_source response =
     \<lparr>DataSource_client = Some (example_client (answering response) [])\<rparr>"

definition empty_body :: ResponseBody where
  "empty_body =
     \<lparr>ReadAll = Inr [], Decode_SegmentPort = Inl ''EOF'',
      Decode_ListSegmentPortsResponse = Inl ''EOF''\<rparr>"

definition port_body :: ResponseBody where
  "port_body =
     \<lparr>ReadAll = Inr [], Decode_SegmentPort = Inr child_example,
      Decode_ListSegmentPortsResponse =
        Inr \<lparr>ResultCount = 0, Results = []\<rparr>\<rparr>"

definition ports_body :: ResponseBody where
  "ports_body =
     \<lparr>ReadAll = Inr [],
      Decode_SegmentPort =
        Inr \<lparr>AddressBindings = \<lparr>IpAddress = [], MacAddress = [], VlanId = []\<rparr>,
             AdminState = [],
             Attachment = \<lparr>AllocateAddresses = [], AppId = [], ContextId = [],
                            Attachment_Id = [], TrafficTag = [], Attachment_Type = []\<rparr>,
             Description = [], DisplayName = [], SegmentPort_Id = [], ResourceType = []\<rparr>,
      Decode_ListSegmentPortsResponse =
        Inr \<lparr>ResultCount = 1, Results = [child_example]\<rparr>\<rparr>"

definition ok_with :: "ResponseBody \<Rightarrow> Response" where
  "ok_with body = \<lparr>StatusCode = 200, Status = ''200 OK'', Response_Body = body\<rparr>"

definition not_found :: Response where
  "not_found = \<lparr>StatusCode = 404, Status = ''404 Not Found'', Response_Body = empty_body\<rparr>"

definition unauthorized :: Response where
  "unauthorized =
     \<lparr>StatusCode = 401, Status = ''401 Unauthorized'', Response_Body = empty_body\<rparr>"

definition no_conversion_errors :: "'m \<Rightarrow> Diagnostics" where
  "no_conversion_errors val = []"

definition empty_response :: "'m option \<Rightarrow> 'm tfsdk_Response" where
  "empty_response st = \<lparr>Diagnostics = [], State = st\<rparr>"

definition got :: "'m \<Rightarrow> 'm tfsdk_Data" where
  "got val = \<lparr>Get_diags = [], Get_value = val\<rparr>"

text \<open>A provider configuration with every value known, and a login that is refused.\<close>

definition example_configuration :: NsxtIntervlanRoutingProviderModel where
  "example_configuration =
     \<lparr>NsxtInsecure = Known True, NsxtUsername = Known ''admin'',
      NsxtPassword = Known ''pass word'', NsxtHost = Known ''https://nsx.example.com''\<rparr>"

definition empty_ConfigureResponse :: ConfigureResponse where
  "empty_ConfigureResponse =
     \<lparr>Configure_Diagnostics = [], DataSourceData = None, ResourceData = None\<rparr>"

definition example_login_request :: Request where
  "example_login_request =
     \<lparr>Method = ''POST'', URL = ''https://nsx.example.com/api/session/create'',
      Header = Map.empty,
      Body = Some (RawBytes ''j_password=pass+word&j_username=admin'')\<rparr>"

text \<open>
  An environment that sets only \<open>NSXT_HOSTNAME\<close>, and a configuration whose host is
  the empty string and whose other values are null.
\<close>

definition hostname_only :: "string \<Rightarrow> string" where
  "hostname_only variable = (if variable = ''NSXT_HOSTNAME'' then ''nsx.example.com'' else [])"

definition empty_host_configuration :: NsxtIntervlanRoutingProviderModel where
  "empty_host_configuration =
     \<lparr>NsxtInsecure = Null, NsxtUsername = Null, NsxtPassword = Null, NsxtHost = Known []\<rparr>"

section \<open>The specification's terms\<close>

text \<open>
  A fatal diagnostic, and the four warnings of a missing setting, as values.
\<close>

definition fatal :: "string \<Rightarrow> string \<Rightarrow> Diagnostic" where
  "fatal summary detail =
     \<lparr>Severity = SeverityError, Summary = summary, Detail = detail, AttributePath = None\<rparr>"

definition missing_warning :: "string \<Rightarrow> string \<Rightarrow> string \<Rightarrow> Diagnostic" where
  "missing_warning path summary detail =
     \<lparr>Severity = SeverityWarning, Summary = summary, Detail = detail,
      AttributePath = Some path\<rparr>"

definition insecure_warning :: Diagnostic where
  "insecure_warning =
     missing_warning ''insecure''
       ''Missing NSX-T Manager API Insecure (using default value: false)''
       (missing_detail ''NSX-T Manager API insecure'' ''insecure'' ''NSXT_INSECURE'')"

definition hostname_warning :: Diagnostic where
  "hostname_warning =
     missing_warning ''host''
       ''Missing NSX-T Manager API Hostname (using default value: 127.0.0.1)''
       (missing_detail ''NSX-T Manager API hostname'' ''host'' ''NSXT_HOSTNAME'')"

definition username_warning :: Diagnostic where
  "username_warning =
     missing_warning ''username''
       ''Missing NSX-T API username (using default value: admin)''
       (missing_detail ''NSX-T API username'' ''username'' ''NSXT_USERNAME'')"

definition password_warning :: Diagnostic where
  "password_warning =
     missing_warning ''password''
       ''Missing NSX-T API port (using default value: password)''
       (missing_detail ''NSX-T API password'' ''password'' ''NSXT_PASSWORD'')"

text \<open>
  The order of precedence in the specification's words: the value of the configuration
  where it is set (not null), the environment variable otherwise; and the default in
  place of a value that is empty.
\<close>

definition configured_or_environment :: "string attr \<Rightarrow> string \<Rightarrow> string" where
  "configured_or_environment explicit env = (if IsNull explicit then env else ValueString explicit)"

definition or_default :: "string \<Rightarrow> string \<Rightarrow> string" where
  "or_default v d = (if v = [] then d else v)"

text \<open>The request that \<open>Create\<close> and \<open>Update\<close> make of a plan.\<close>

definition patch_of :: "segmentPortResourceModel \<Rightarrow> PatchSegmentPortRequest" where
  "patch_of plan =
     \<lparr>Patch_SegmentId = ValueString (SegmentId plan), Patch_PortId = ValueString (PortId plan),
      Patch_SegmentPort = Model_SegmentPort plan\<rparr>"

section \<open>Properties of the client\<close>

subsection \<open>Building the example requests\<close>

lemma basicAuth_admin: "basicAuth ''admin'' ''password'' = ''YWRtaW46cGFzc3dvcmQ=''"
  by (simp add: basicAuth_def base64_EncodeToString_def base64_digit_def base64_alphabet_def)

lemma origin_of_example: "origin_of ''https://nsx.example.com'' = ''https://nsx.example.com''"
  by (simp add: origin_of_def)

lemma build_example_patch:
  "NewPatchSegmentPortRequest plain_url ''https://nsx.example.com'' ''admin'' ''password''
     example_patch = Inr example_patch_request"
  by (simp add: NewPatchSegmentPortRequest_def plain_url_def origin_of_example
        http_NewRequest_def example_patch_def example_patch_request_def SetBasicAuth_def
        Header_Set_def Header_Add_def basicAuth_admin)

lemma build_example_get:
  "NewGetSegmentPortRequest plain_url ''https://nsx.example.com'' ''admin'' ''password''
     ''seg-1'' ''port-1'' = Inr example_get_request"
  by (simp add: NewGetSegmentPortRequest_def plain_url_def origin_of_example
        http_NewRequest_def example_get_request_def SetBasicAuth_def Header_Set_def
        basicAuth_admin)

lemma build_example_list:
  "NewListSegmentPortsRequest plain_url ''https://nsx.example.com'' ''admin'' ''password''
     ''seg-1'' = Inr example_list_request"
  by (simp add: NewListSegmentPortsRequest_def plain_url_def origin_of_example
        http_NewRequest_def example_list_request_def SetBasicAuth_def Header_Set_def
        basicAuth_admin)

lemma build_example_delete:
  "NewDeleteSegmentPortRequest plain_url ''https://nsx.example.com'' ''seg-1'' ''port-1''
     = Inr example_delete_request"
  by (simp add: NewDeleteSegmentPortRequest_def plain_url_def origin_of_example
        http_NewRequest_def example_delete_request_def)

subsection \<open>The body of a PATCH\<close>

lemma member_address_bindings:
  "member (Marshal_SegmentPort sp) ''address_bindings''
     = Some (Marshal_PortAddressBindingEntry (AddressBindings sp))"
  by (simp add: Marshal_SegmentPort_def)

lemma address_bindings_never_an_array:
  "map_option is_JArray (member (Marshal_SegmentPort sp) ''address_bindings'') = Some False"
  by (simp add: member_address_bindings Marshal_PortAddressBindingEntry_def)

lemma Marshal_SegmentPort_whole_object:
  "Marshal_SegmentPort sp =
     JObject
       [(''address_bindings'',
           JObject [(''ip_address'', JString (IpAddress (AddressBindings sp))),
                    (''mac_address'', JString (MacAddress (AddressBindings sp))),
                    (''vlan_id'', JString (VlanId (AddressBindings sp)))]),
        (''admin_state'', JString (AdminState sp)),
        (''attachment'',
           JObject [(''allocate_addresses'', JString (AllocateAddresses (Attachment sp))),
                    (''app_id'', JString (AppId (Attachment sp))),
                    (''context_id'', JString (ContextId (Attachment sp))),
                    (''id'', JString (Attachment_Id (Attachment sp))),
                    (''traffic_tag'', JString (TrafficTag (Attachment sp))),
                    (''type'', JString (Attachment_Type (Attachment sp)))]),
        (''description'', JString (Description sp)),
        (''display_name'', JString (DisplayName sp)),
        (''id'', JString (SegmentPort_Id sp)),
        (''resource_type'', JString (ResourceType sp))]"
  by (simp add: Marshal_SegmentPort_def Marshal_PortAddressBindingEntry_def
        Marshal_PortAttachment_def)

lemma Body_of_patch_request:
  assumes "NewPatchSegmentPortRequest L server user pass body = Inr req"
  shows "Body req = Some (JSONBytes (Marshal_SegmentPort (Patch_SegmentPort body)))"
    and "Method req = ''PATCH''"
  using assms
  by (auto simp: NewPatchSegmentPortRequest_def http_NewRequest_def Header_Add_def
        SetBasicAuth_def Header_Set_def split: sum.splits)

text \<open>
  C2. The claim: a segment port whose address bindings are the one-element list of the
  child example is encoded, for the PATCH body, with an \<open>address_bindings\<close> member that
  is a JSON array of that triple. The code: the field \<open>AddressBindings\<close> of
  \<open>SegmentPort\<close> is one \<open>PortAddressBindingEntry\<close>, not a slice, so the member is the
  JSON object of the triple and not an array holding it, while the schema of the resource
  declares \<open>address_bindings\<close> a list of such objects.
\<close>

theorem address_bindings_marshalled_as_object:
  "member (Marshal_SegmentPort child_example) ''address_bindings''
     = Some (JObject [(''ip_address'', JString ''169.254.254.169''),
                      (''mac_address'', JString ''00:50:56:ad:5e:64''),
                      (''vlan_id'', JString ''1001'')])
   \<and> member (Marshal_SegmentPort child_example) ''address_bindings''
     \<noteq> Some (JArray [JObject [(''ip_address'', JString ''169.254.254.169''),
                               (''mac_address'', JString ''00:50:56:ad:5e:64''),
                               (''vlan_id'', JString ''1001'')]])
   \<and> Body example_patch_request = Some (JSONBytes (Marshal_SegmentPort child_example))
   \<and> map_option is_ListNestedAttribute
        (attribute Resource_Schema [''segment_port'', ''address_bindings'']) = Some True"
  by (simp add: member_address_bindings Marshal_PortAddressBindingEntry_def child_example_def
        Resource_Schema_def example_patch_request_def)

subsection \<open>Basic authentication\<close>

lemma http_NewRequest_fields:
  "http_NewRequest L m u b = Inr req \<Longrightarrow>
     Header req = Map.empty \<and> Method req = m \<and> Body req = b \<and> URL req = u"
  by (auto simp: http_NewRequest_def split: sum.splits)

lemma Authorization_SetBasicAuth:
  "Header (SetBasicAuth user pass req) ''Authorization''
     = Some [''Basic '' @ basicAuth user pass]"
  by (simp add: SetBasicAuth_def Header_Set_def)

lemma Delete_request_no_Authorization:
  "NewDeleteSegmentPortRequest L server segment_id port_id = Inr req
     \<Longrightarrow> Header req ''Authorization'' = None"
  by (auto simp: NewDeleteSegmentPortRequest_def Let_def split: sum.splits
        dest!: http_NewRequest_fields)

lemma Get_request_Authorization:
  "NewGetSegmentPortRequest L server user pass segment_id port_id = Inr req \<Longrightarrow>
     Header req ''Authorization'' = Some [''Basic '' @ basicAuth user pass]"
  by (auto simp: NewGetSegmentPortRequest_def Let_def Authorization_SetBasicAuth
        split: sum.splits)

lemma List_request_Authorization:
  "NewListSegmentPortsRequest L server user pass segment_id = Inr req \<Longrightarrow>
     Header req ''Authorization'' = Some [''Basic '' @ basicAuth user pass]"
  by (auto simp: NewListSegmentPortsRequest_def Let_def Authorization_SetBasicAuth
        split: sum.splits)

lemma Patch_request_Authorization:
  "NewPatchSegmentPortRequest L server user pass body = Inr req \<Longrightarrow>
     Header req ''Authorization'' = Some [''Basic '' @ basicAuth user pass]"
  by (auto simp: NewPatchSegmentPortRequest_def Let_def Header_Add_def SetBasicAuth_def
        Header_Set_def split: sum.splits)

text \<open>
  C4. Whatever the server URL, the segment and the port: a request that
  \<open>NewDeleteSegmentPortRequest\<close> builds has no \<open>Authorization\<close> header, and a request
  that the builder of Get, of List or of Patch builds has the one \<open>Authorization\<close> value
  \<open>Basic\<close> followed by the base64 encoding of \<open>user:pass\<close>. The client's methods pass
  their \<open>Username\<close> and \<open>Password\<close> for \<open>user\<close> and \<open>pass\<close>.
\<close>

theorem basic_auth_on_all_requests_but_Delete:
  "(NewDeleteSegmentPortRequest L server segment_id port_id = Inr req
      \<longrightarrow> Header req ''Authorization'' = None) \<and>
   (NewGetSegmentPortRequest L server user pass segment_id port_id = Inr req
      \<longrightarrow> Header req ''Authorization'' = Some [''Basic '' @ basicAuth user pass]) \<and>
   (NewListSegmentPortsRequest L server user pass segment_id = Inr req
      \<longrightarrow> Header req ''Authorization'' = Some [''Basic '' @ basicAuth user pass]) \<and>
   (NewPatchSegmentPortRequest L server user pass body = Inr req
      \<longrightarrow> Header req ''Authorization'' = Some [''Basic '' @ basicAuth user pass])"
  by (intro conjI impI)
     (erule Delete_request_no_Authorization, erule Get_request_Authorization,
      erule List_request_Authorization, erule Patch_request_Authorization)

theorem basic_auth_on_all_requests_but_Delete_witness:
  "NewDeleteSegmentPortRequest plain_url ''https://nsx.example.com'' ''seg-1'' ''port-1''
     = Inr example_delete_request
   \<and> Header example_delete_request ''Authorization'' = None
   \<and> NewGetSegmentPortRequest plain_url ''https://nsx.example.com'' ''admin'' ''password''
        ''seg-1'' ''port-1'' = Inr example_get_request
   \<and> Header example_get_request ''Authorization'' = Some [''Basic YWRtaW46cGFzc3dvcmQ='']
   \<and> NewListSegmentPortsRequest plain_url ''https://nsx.example.com'' ''admin'' ''password''
        ''seg-1'' = Inr example_list_request
   \<and> Header example_list_request ''Authorization'' = Some [''Basic YWRtaW46cGFzc3dvcmQ='']
   \<and> NewPatchSegmentPortRequest plain_url ''https://nsx.example.com'' ''admin'' ''password''
        example_patch = Inr example_patch_request
   \<and> Header example_patch_request ''Authorization'' = Some [''Basic YWRtaW46cGFzc3dvcmQ='']"
  using
    basic_auth_on_all_requests_but_Delete [of plain_url "''https://nsx.example.com''"
      "''seg-1''" "''port-1''" example_delete_request "''admin''" "''password''" example_patch]
    basic_auth_on_all_requests_but_Delete [of plain_url "''https://nsx.example.com''"
      "''seg-1''" "''port-1''" example_get_request "''admin''" "''password''" example_patch]
    basic_auth_on_all_requests_but_Delete [of plain_url "''https://nsx.example.com''"
      "''seg-1''" "''port-1''" example_list_request "''admin''" "''password''" example_patch]
    basic_auth_on_all_requests_but_Delete [of plain_url "''https://nsx.example.com''"
      "''seg-1''" "''port-1''" example_patch_request "''admin''" "''password''" example_patch]
  by (simp add: build_example_delete build_example_get build_example_list build_example_patch
        basicAuth_admin)

subsection \<open>Request editors and dispatch\<close>

lemma edited_by_Cons: "edited_by (h # hs) req = edited_by hs (fst (h req))"
  by (simp add: edited_by_def)

lemma hook_error_0: "hook_error (h # hs) req 0 = snd (h req)"
  by (simp add: hook_error_def edited_by_def)

lemma hook_error_Suc: "hook_error (h # hs) req (Suc k) = hook_error hs (fst (h req)) k"
  by (simp add: hook_error_def edited_by_def)

lemma first_hook_error_Nil: "first_hook_error [] req = None"
  by (simp add: first_hook_error_def)

lemma first_hook_error_Cons:
  "first_hook_error (h # hs) req =
     (case snd (h req) of Some e \<Rightarrow> Some e | None \<Rightarrow> first_hook_error hs (fst (h req)))"
proof -
  have upt: "[0..<length (h # hs)] = 0 # map Suc [0..<length hs]"
    by (simp add: upt_conv_Cons map_Suc_upt del: upt_Suc)
  have shift: "filter (\<lambda>k. hook_error (h # hs) req k \<noteq> None) (map Suc [0..<length hs])
      = map Suc (filter (\<lambda>k. hook_error hs (fst (h req)) k \<noteq> None) [0..<length hs])"
    by (simp add: filter_map comp_def hook_error_Suc del: not_None_eq)
  let ?F = "filter (\<lambda>k. hook_error hs (fst (h req)) k \<noteq> None) [0..<length hs]"
  show ?thesis
  proof (cases "snd (h req)")
    case None
    then have "first_hook_error (h # hs) req =
        (case map Suc ?F of [] \<Rightarrow> None | k # _ \<Rightarrow> hook_error (h # hs) req k)"
      unfolding first_hook_error_def upt by (simp add: shift hook_error_0 del: not_None_eq)
    also have "\<dots> = first_hook_error hs (fst (h req))"
      unfolding first_hook_error_def by (cases ?F) (simp_all add: hook_error_Suc)
    finally show ?thesis using None by simp
  next
    case (Some e)
    then show ?thesis
      unfolding first_hook_error_def upt by (simp add: hook_error_0)
  qed
qed

lemma range_editors_spec:
  "range_editors hs req =
     (case first_hook_error hs req of
        Some e \<Rightarrow> (fst (range_editors hs req), Some e)
      | None \<Rightarrow> (edited_by hs req, None))"
proof (induction hs arbitrary: req)
  case Nil
  then show ?case by (simp add: first_hook_error_Nil edited_by_def)
next
  case (Cons h hs)
  obtain r e where h: "h req = (r, e)" by (cases "h req")
  show ?case
  proof (cases e)
    case None
    with h Cons.IH [of r] show ?thesis
      by (simp add: first_hook_error_Cons edited_by_Cons split: option.splits)
  next
    case (Some err)
    with h show ?thesis
      by (simp add: first_hook_error_Cons)
  qed
qed

lemma range_editors_append:
  "range_editors (xs @ ys) req =
     (case range_editors xs req of
        (req', Some err) \<Rightarrow> (req', Some err)
      | (req', None) \<Rightarrow> range_editors ys req')"
  by (induction xs arbitrary: req) (auto split: prod.splits option.splits)

lemma applyEditors_append:
  "applyEditors c req extra = range_editors (RequestEditors c @ extra) req"
  by (simp add: applyEditors_def range_editors_append)

lemma dispatch_tail:
  "(case applyEditors c req extra of
      (req', Some err) \<Rightarrow> ([], Return (Inl err))
    | (req', None) \<Rightarrow> Client_Do c req') = hooks_then_dispatch c req extra"
proof -
  let ?hs = "RequestEditors c @ extra"
  show ?thesis
  proof (cases "first_hook_error ?hs req")
    case None
    then have "range_editors ?hs req = (edited_by ?hs req, None)"
      using range_editors_spec [of ?hs req] by simp
    with None show ?thesis
      by (simp add: applyEditors_append hooks_then_dispatch_def Client_Do_def Let_def)
  next
    case (Some e)
    then have "range_editors ?hs req = (fst (range_editors ?hs req), Some e)"
      using range_editors_spec [of ?hs req] by simp
    then obtain r where "range_editors ?hs req = (r, Some e)" by blast
    with Some show ?thesis
      by (simp add: applyEditors_append hooks_then_dispatch_def Let_def)
  qed
qed

lemma PatchSegmentPort_dispatch:
  "NewPatchSegmentPortRequest L (Server c) (Username c) (Password c) body = Inr req
     \<Longrightarrow> PatchSegmentPort L c body extra = hooks_then_dispatch c req extra"
  by (simp add: PatchSegmentPort_def dispatch_tail)

text \<open>
  C6. For a request that a builder has returned, each of the four methods of the client
  does what the specification says of dispatch (\<open>hooks_then_dispatch\<close>): the registered
  hooks, then the hooks of the call, are applied in that order, each to the request as
  the hooks before it left it; the error of the first hook that fails is returned and
  no request reaches the doer; otherwise the doer receives the request edited by all
  hooks, once.
\<close>

theorem dispatch_applies_hooks_in_order:
  "(NewPatchSegmentPortRequest L (Server c) (Username c) (Password c) body = Inr req
      \<longrightarrow> PatchSegmentPort L c body extra = hooks_then_dispatch c req extra) \<and>
   (NewGetSegmentPortRequest L (Server c) (Username c) (Password c) segment_id port_id = Inr req
      \<longrightarrow> GetSegmentPort L c segment_id port_id extra = hooks_then_dispatch c req extra) \<and>
   (NewListSegmentPortsRequest L (Server c) (Username c) (Password c) segment_id = Inr req
      \<longrightarrow> ListSegmentPorts L c segment_id extra = hooks_then_dispatch c req extra) \<and>
   (NewDeleteSegmentPortRequest L (Server c) segment_id port_id = Inr req
      \<longrightarrow> DeleteSegmentPort L c segment_id port_id extra = hooks_then_dispatch c req extra)"
  by (simp add: PatchSegmentPort_def GetSegmentPort_def ListSegmentPorts_def
        DeleteSegmentPort_def dispatch_tail)

lemma example_hooks_first_error:
  "hooks_then_dispatch
     (example_client doer
        [tag_hook ''X-Trace'' ''1'', failing_hook ''denied'', failing_hook ''late''])
     example_patch_request []
   = ([], Return (Inl ''denied''))"
  by (simp add: hooks_then_dispatch_def example_client_def first_hook_error_def hook_error_def
        edited_by_def tag_hook_def failing_hook_def upt_conv_Cons)

lemma example_hooks_all_pass:
  "hooks_then_dispatch (example_client doer [tag_hook ''X-Trace'' ''1''])
     example_patch_request [tag_hook ''X-Late'' ''2'']
   = ([Header_Add ''X-Late'' ''2'' (Header_Add ''X-Trace'' ''1'' example_patch_request)],
      Return (doer (Header_Add ''X-Late'' ''2''
                      (Header_Add ''X-Trace'' ''1'' example_patch_request))))"
  by (simp add: hooks_then_dispatch_def example_client_def first_hook_error_def hook_error_def
        edited_by_def tag_hook_def upt_conv_Cons)

theorem dispatch_applies_hooks_in_order_witness:
  "NewPatchSegmentPortRequest plain_url ''https://nsx.example.com'' ''admin'' ''password''
     example_patch = Inr example_patch_request
   \<and> PatchSegmentPort plain_url
        (example_client (\<lambda>req. Inl ''unreachable'')
           [tag_hook ''X-Trace'' ''1'', failing_hook ''denied'', failing_hook ''late''])
        example_patch []
      = ([], Return (Inl ''denied''))
   \<and> PatchSegmentPort plain_url
        (example_client (\<lambda>req. Inl ''unreachable'') [tag_hook ''X-Trace'' ''1''])
        example_patch [tag_hook ''X-Late'' ''2'']
      = ([Header_Add ''X-Late'' ''2'' (Header_Add ''X-Trace'' ''1'' example_patch_request)],
         Return (Inl ''unreachable''))"
  using
    dispatch_applies_hooks_in_order [of plain_url
      "example_client (\<lambda>req. Inl ''unreachable'')
         [tag_hook ''X-Trace'' ''1'', failing_hook ''denied'', failing_hook ''late'']"
      example_patch example_patch_request "[]"]
    dispatch_applies_hooks_in_order [of plain_url
      "example_client (\<lambda>req. Inl ''unreachable'') [tag_hook ''X-Trace'' ''1'']"
      example_patch example_patch_request "[tag_hook ''X-Late'' ''2'']"]
  by (simp add: build_example_patch example_client_def
        example_hooks_first_error [unfolded example_client_def]
        example_hooks_all_pass [unfolded example_client_def])

section \<open>Properties of the adapters\<close>

subsection \<open>Diagnostics and state\<close>

lemma set_Append: "set (Append a b) = set a \<union> set b"
  by (induction b arbitrary: a) auto

lemma HasError_iff: "HasError ds \<longleftrightarrow> (\<exists>d \<in> set ds. Severity d = SeverityError)"
  by (simp add: HasError_def list_ex_iff)

lemma HasError_Append: "HasError (Append a b) \<longleftrightarrow> HasError a \<or> HasError b"
  by (auto simp: HasError_iff set_Append)

lemma set_AddError: "set (AddError summary detail diags) = insert (fatal summary detail) (set diags)"
  by (auto simp: AddError_def set_Append fatal_def)

lemma HasError_AddError: "HasError (AddError summary detail diags)"
  by (simp add: HasError_iff set_AddError fatal_def)

lemma State_Set_State:
  "State (State_Set convert val resp) = (if HasError (convert val) then State resp else Some val)"
  by (simp add: State_Set_def Let_def)

lemma State_Set_HasError:
  "HasError (Diagnostics (State_Set convert val resp))
     \<longleftrightarrow> HasError (Diagnostics resp) \<or> HasError (convert val)"
  by (simp add: State_Set_def Let_def HasError_Append)

subsection \<open>Reading into the resource's model\<close>

lemma SegmentPort_never_built: "\<not> BuildValue SegmentPort_type val"
  by (cases val) (simp_all add: SegmentPort_type_def)

lemma segmentPortResourceModel_never_built:
  "\<not> BuildValue segmentPortResourceModel_type val"
  by (cases val)
     (auto simp add: segmentPortResourceModel_type_def SegmentPort_never_built
        split: option.splits)

lemma Resource_Get_fails:
  "Resource_Get populate detail place raw
     = \<lparr>Get_diags = [conversion_error detail place],
        Get_value = zero_segmentPortResourceModel\<rparr>"
  by (simp add: Resource_Get_def Get_def segmentPortResourceModel_never_built)

lemma HasError_conversion_error:
  "HasError (Append diags [conversion_error detail place])"
  by (simp only: HasError_Append) (simp add: HasError_def conversion_error_def)

subsection \<open>\<open>Read\<close> of the resource\<close>

text \<open>The lines of \<open>Read\<close> after the state is read, for a state that is read without error.\<close>

lemma Read_returns:
  assumes "Resource_client r = Some c"
    and "\<not> HasError (Append (Diagnostics resp) (Get_diags req))"
    and "GetSegmentPort L c (ValueString (SegmentId (Get_value req)))
           (ValueString (PortId (Get_value req))) [] = (sent, Return result)"
  shows "outcome (Read L convert r req resp) = Return
     (let resp1 = resp\<lparr>Diagnostics := Append (Diagnostics resp) (Get_diags req)\<rparr> in
      case result of
        Inl err \<Rightarrow> resp1\<lparr>Diagnostics :=
                     AddError ''Unable to Read Segment Port configuration'' err (Diagnostics resp1)\<rparr>
      | Inr spResponse \<Rightarrow>
          if StatusCode spResponse = 404 then RemoveResource resp1
          else if StatusCode spResponse \<noteq> 200
          then resp1\<lparr>Diagnostics :=
                 AddError ''Unexpected HTTP error code received for segment port''
                   (Status spResponse) (Diagnostics resp1)\<rparr>
          else (case Decode_SegmentPort (Response_Body spResponse) of
                  Inl err \<Rightarrow> resp1\<lparr>Diagnostics :=
                     AddError ''Invalid format received for Item'' err (Diagnostics resp1)\<rparr>
                | Inr newSegmentPort \<Rightarrow>
                    State_Set convert \<lparr>SegmentId = SegmentId (Get_value req),
                        PortId = PortId (Get_value req), Model_SegmentPort = newSegmentPort\<rparr> resp1))"
    and "requests (Read L convert r req resp) = sent"
  using assms
  by (simp_all add: Read_def Let_def split: sum.splits)

text \<open>
  C1. The claim: for every stored state and every response, \<open>Read\<close> reports a fatal
  diagnostic on an error of Get and leaves the state, removes the resource from the state
  without a diagnostic on status 404, reports a fatal diagnostic on another status than
  200, and otherwise persists the decoded segment port. The code has these branches, and
  reaches none: it first reads the state into a \<open>segmentPortResourceModel\<close>, whose field
  \<open>SegmentPort\<close> is the client's struct, without \<open>tfsdk\<close> tags, so that \<open>State.Get\<close>
  reports an error for every state and \<open>Read\<close> returns with it. Whatever the stored
  state, the client and the server, no request is handed to the doer, the response holds
  the error of the conversion, which is fatal, and the state is as it was; so it is for
  the state of the child example and a server that answers 404.
\<close>

theorem Read_stops_at_State_Get:
  "requests (Read L convert r (Resource_Get populate detail place raw) resp) = []
   \<and> outcome (Read L convert r (Resource_Get populate detail place raw) resp)
      = Return (resp\<lparr>Diagnostics :=
                       Append (Diagnostics resp) [conversion_error detail place]\<rparr>)
   \<and> HasError (Append (Diagnostics resp) [conversion_error detail place])
   \<and> StatusCode not_found = 404
   \<and> Read plain_url no_conversion_errors (example_resource not_found)
        (Resource_Get populate detail place example_raw_state) (empty_response st)
      = \<lparr>requests = [],
         tflog = [(LevelDebug, ''Preparing to read item resource'', [])],
         outcome = Return \<lparr>Diagnostics = [conversion_error detail place], State = st\<rparr>\<rparr>"
proof -
  have stop: "Read L' convert' r' (Resource_Get populate detail place raw') resp'
      = \<lparr>requests = [],
         tflog = [(LevelDebug, ''Preparing to read item resource'', [])],
         outcome = Return (resp'\<lparr>Diagnostics :=
                       Append (Diagnostics resp') [conversion_error detail place]\<rparr>)\<rparr>"
    for L' :: "'u net_url" and convert' r' raw' resp'
    using HasError_conversion_error [of "Diagnostics resp'" detail place]
    by (simp add: Read_def Let_def Resource_Get_fails)
  have "Read plain_url no_conversion_errors (example_resource not_found)
        (Resource_Get populate detail place example_raw_state) (empty_response st)
      = \<lparr>requests = [],
         tflog = [(LevelDebug, ''Preparing to read item resource'', [])],
         outcome = Return \<lparr>Diagnostics = [conversion_error detail place], State = st\<rparr>\<rparr>"
    using HasError_conversion_error [of "[]" detail place]
    by (simp add: Read_def Let_def Resource_Get_fails empty_response_def)
  moreover have "StatusCode not_found = 404"
    by (simp add: not_found_def)
  ultimately show ?thesis
    using HasError_conversion_error [of "Diagnostics resp" detail place]
    by (simp add: Read_def Let_def Resource_Get_fails)
qed

subsection \<open>\<open>Create\<close> and \<open>Update\<close>\<close>

text \<open>
  \<open>Update\<close> hands the doer the requests of \<open>Create\<close> and ends as \<open>Create\<close> does, for
  every input; the two differ in the lines they log. What follows the reading of the
  plan, for a plan that is read without error, is in \<open>Create_returns\<close>.
\<close>

lemma Update_requests: "requests (Update L convert r req resp) = requests (Create L convert r req resp)"
  by (simp add: Update_def Create_def Let_def split: option.splits prod.splits outcome.splits sum.splits)

lemma Update_outcome: "outcome (Update L convert r req resp) = outcome (Create L convert r req resp)"
  by (simp add: Update_def Create_def Let_def split: option.splits prod.splits outcome.splits sum.splits)

lemma Client_Do_length: "length (fst (Client_Do c req)) \<le> 1"
  by (simp add: Client_Do_def split: option.splits)

lemma PatchSegmentPort_length: "length (fst (PatchSegmentPort L c body extra)) \<le> 1"
  by (simp add: PatchSegmentPort_def Client_Do_length [simplified] split: sum.splits prod.splits option.splits)

lemma Create_requests_length: "length (requests (Create L convert r req resp)) \<le> 1"
proof (cases "Resource_client r")
  case None
  then show ?thesis by (simp add: Create_def Let_def)
next
  case (Some c)
  have "length sent \<le> 1"
    if "PatchSegmentPort L c (patch_of (Get_value req)) [] = (sent, res)" for sent res
    using PatchSegmentPort_length [of L c "patch_of (Get_value req)" "[]"] that by simp
  with Some show ?thesis
    by (simp add: Create_def Let_def patch_of_def
          split: option.splits prod.splits outcome.splits sum.splits)
qed

lemma Create_returns:
  assumes "Resource_client r = Some c"
    and "\<not> HasError (Append (Diagnostics resp) (Get_diags req))"
    and "PatchSegmentPort L c (patch_of (Get_value req)) [] = (sent, Return result)"
  shows "outcome (Create L convert r req resp) = Return
     (let resp1 = resp\<lparr>Diagnostics := Append (Diagnostics resp) (Get_diags req)\<rparr> in
      case result of
        Inl err \<Rightarrow> resp1\<lparr>Diagnostics :=
                     AddError ''Unable to Create Segment Port'' err (Diagnostics resp1)\<rparr>
      | Inr spResponse \<Rightarrow>
          if StatusCode spResponse \<noteq> 200
          then resp1\<lparr>Diagnostics :=
                 AddError (''An invalid response was received. Code: ''
                             @ int_to_string (StatusCode spResponse))
                   (Status spResponse) (Diagnostics resp1)\<rparr>
          else State_Set convert (Get_value req) resp1)"
    and "requests (Create L convert r req resp) = sent"
  using assms
  by (simp_all add: Create_def Let_def patch_of_def split: sum.splits)

text \<open>
  C3. The claim: \<open>Update\<close> is \<open>Create\<close>; both issue a single PATCH whose body is the
  whole segment port, both treat an error or another status than 200 as fatal, and both
  persist the plan on success. The code: \<open>Update\<close> does repeat \<open>Create\<close>, and both have
  those branches, but neither reaches them: the plan is first read into a
  \<open>segmentPortResourceModel\<close>, whose field \<open>SegmentPort\<close> is the client's struct,
  without \<open>tfsdk\<close> tags, so that \<open>Plan.Get\<close> reports an error for every plan and both
  return with it. Whatever the plan, the client and the server, neither hands a request
  to the doer, and both end with the error of the conversion, which is fatal, and the
  state as it was; so it is for the plan of the child example and a server that would
  answer 200.
\<close>

theorem Create_and_Update_stop_at_Plan_Get:
  "requests (Create L convert r (Resource_Get populate detail place raw) resp) = []
   \<and> outcome (Create L convert r (Resource_Get populate detail place raw) resp)
      = Return (resp\<lparr>Diagnostics :=
                       Append (Diagnostics resp) [conversion_error detail place]\<rparr>)
   \<and> requests (Update L convert r (Resource_Get populate detail place raw) resp) = []
   \<and> outcome (Update L convert r (Resource_Get populate detail place raw) resp)
      = Return (resp\<lparr>Diagnostics :=
                       Append (Diagnostics resp) [conversion_error detail place]\<rparr>)
   \<and> HasError (Append (Diagnostics resp) [conversion_error detail place])
   \<and> StatusCode (ok_with port_body) = 200
   \<and> Create plain_url no_conversion_errors (example_resource (ok_with port_body))
        (Resource_Get populate detail place example_raw_state) (empty_response None)
      = \<lparr>requests = [],
         tflog = [(LevelDebug, ''Preparing to create segment port resource'', [])],
         outcome = Return \<lparr>Diagnostics = [conversion_error detail place], State = None\<rparr>\<rparr>
   \<and> Update plain_url no_conversion_errors (example_resource (ok_with port_body))
        (Resource_Get populate detail place example_raw_state) (empty_response None)
      = \<lparr>requests = [],
         tflog = [(LevelDebug, ''Preparing to update segment port resource'', [])],
         outcome = Return \<lparr>Diagnostics = [conversion_error detail place], State = None\<rparr>\<rparr>"
proof -
  have "Create plain_url no_conversion_errors (example_resource (ok_with port_body))
        (Resource_Get populate detail place example_raw_state) (empty_response None)
      = \<lparr>requests = [],
         tflog = [(LevelDebug, ''Preparing to create segment port resource'', [])],
         outcome = Return \<lparr>Diagnostics = [conversion_error detail place], State = None\<rparr>\<rparr>"
    using HasError_conversion_error [of "[]" detail place]
    by (simp add: Create_def Let_def Resource_Get_fails empty_response_def)
  moreover have "Update plain_url no_conversion_errors (example_resource (ok_with port_body))
        (Resource_Get populate detail place example_raw_state) (empty_response None)
      = \<lparr>requests = [],
         tflog = [(LevelDebug, ''Preparing to update segment port resource'', [])],
         outcome = Return \<lparr>Diagnostics = [conversion_error detail place], State = None\<rparr>\<rparr>"
    using HasError_conversion_error [of "[]" detail place]
    by (simp add: Update_def Let_def Resource_Get_fails empty_response_def)
  moreover have "StatusCode (ok_with port_body) = 200"
    by (simp add: ok_with_def)
  ultimately show ?thesis
    using HasError_conversion_error [of "Diagnostics resp" detail place]
    by (simp add: Create_def Update_def Let_def Resource_Get_fails)
qed

subsection \<open>The data source\<close>

lemma fold_append_segment_SegmentId:
  "DataSource_SegmentId (fold append_segment xs st) = DataSource_SegmentId st"
  by (induction xs arbitrary: st) (simp_all add: append_segment_def)

lemma fold_append_segment_ids:
  "map p_Id (SegmentPorts (fold append_segment xs st))
     = map p_Id (SegmentPorts st) @ map SegmentPort_Id xs"
  by (induction xs arbitrary: st) (simp_all add: append_segment_def)

lemma fold_append_segment_ResourceType:
  "map p_ResourceType (SegmentPorts (fold append_segment xs st))
     = map p_ResourceType (SegmentPorts st) @ map (\<lambda>x. []) xs"
  by (induction xs arbitrary: st) (simp_all add: append_segment_def)

text \<open>
  C9. With a client in the data source, a call of List that returns a response of status
  200, and a body that decodes: whatever segment identifier is configured, the state
  that \<open>Read\<close> hands to \<open>State.Set\<close> has the empty string as its segment identifier
  (it is assigned from the model that was just reset), with one port for each result;
  that state is persisted unless \<open>State.Set\<close> reports an error.
\<close>

theorem DataSource_Read_drops_segment_id:
  assumes "DataSource_client d = Some c"
    and "ListSegmentPorts L c (DataSource_SegmentId (Get_value req)) []
           = (sent, Return (Inr portsResponse))"
    and "StatusCode portsResponse = 200"
    and "Decode_ListSegmentPortsResponse (Response_Body portsResponse) = Inr segmentPorts"
  shows "\<exists>resp' st. outcome (DataSource_Read L convert d req resp) = Return resp'
           \<and> requests (DataSource_Read L convert d req resp) = sent
           \<and> DataSource_SegmentId st = []
           \<and> map p_Id (SegmentPorts st) = map SegmentPort_Id (Results segmentPorts)
           \<and> State resp' = (if HasError (convert st) then State resp else Some st)"
proof -
  let ?st = "fold append_segment (Results segmentPorts)
               \<lparr>DataSource_SegmentId = [], SegmentPorts = []\<rparr>"
  let ?resp1 = "resp\<lparr>Diagnostics := Append (Diagnostics resp) (Get_diags req)\<rparr>"
  have "outcome (DataSource_Read L convert d req resp) = Return (State_Set convert ?st ?resp1)"
    and sent: "requests (DataSource_Read L convert d req resp) = sent"
    using assms by (simp_all add: DataSource_Read_def Let_def)
  moreover have "DataSource_SegmentId ?st = []"
    by (simp add: fold_append_segment_SegmentId)
  moreover have "map p_Id (SegmentPorts ?st) = map SegmentPort_Id (Results segmentPorts)"
    by (simp add: fold_append_segment_ids)
  moreover have "State (State_Set convert ?st ?resp1)
      = (if HasError (convert ?st) then State resp else Some ?st)"
    by (simp add: State_Set_State)
  ultimately show ?thesis by blast
qed

lemma list_example:
  "ListSegmentPorts plain_url (example_client (answering response) []) ''seg-1'' []
     = ([example_list_request], Return (Inr response))"
  by (simp add: ListSegmentPorts_def example_client_def build_example_list applyEditors_def
        Client_Do_def answering_def)

theorem DataSource_Read_drops_segment_id_witness:
  "DataSource_client (example_data_source (ok_with ports_body))
     = Some (example_client (answering (ok_with ports_body)) [])
   \<and> ListSegmentPorts plain_url (example_client (answering (ok_with ports_body)) [])
        (DataSource_SegmentId
           (Get_value (got \<lparr>DataSource_SegmentId = ''seg-1'', SegmentPorts = []\<rparr>))) []
      = ([example_list_request], Return (Inr (ok_with ports_body)))
   \<and> StatusCode (ok_with ports_body) = 200
   \<and> Decode_ListSegmentPortsResponse (Response_Body (ok_with ports_body))
      = Inr \<lparr>ResultCount = 1, Results = [child_example]\<rparr>
   \<and> (\<exists>resp' st.
         outcome (DataSource_Read plain_url no_conversion_errors
                    (example_data_source (ok_with ports_body))
                    (got \<lparr>DataSource_SegmentId = ''seg-1'', SegmentPorts = []\<rparr>)
                    (empty_response None)) = Return resp'
         \<and> State resp' = Some st
         \<and> DataSource_SegmentId st = []
         \<and> map p_Id (SegmentPorts st) = [''a274ac51-88f5-491f-a46f-840d409ce82f''])"
proof -
  have h1: "DataSource_client (example_data_source (ok_with ports_body))
     = Some (example_client (answering (ok_with ports_body)) [])"
    by (simp add: example_data_source_def)
  have h2: "ListSegmentPorts plain_url (example_client (answering (ok_with ports_body)) [])
        (DataSource_SegmentId
           (Get_value (got \<lparr>DataSource_SegmentId = ''seg-1'', SegmentPorts = []\<rparr>))) []
      = ([example_list_request], Return (Inr (ok_with ports_body)))"
    by (simp add: got_def list_example)
  have h3: "StatusCode (ok_with ports_body) = 200"
    by (simp add: ok_with_def)
  have h4: "Decode_ListSegmentPortsResponse (Response_Body (ok_with ports_body))
      = Inr \<lparr>ResultCount = 1, Results = [child_example]\<rparr>"
    by (simp add: ok_with_def ports_body_def)
  have "\<exists>resp' st.
         outcome (DataSource_Read plain_url no_conversion_errors
                    (example_data_source (ok_with ports_body))
                    (got \<lparr>DataSource_SegmentId = ''seg-1'', SegmentPorts = []\<rparr>)
                    (empty_response None)) = Return resp'
         \<and> State resp' = Some st
         \<and> DataSource_SegmentId st = []
         \<and> map p_Id (SegmentPorts st) = [''a274ac51-88f5-491f-a46f-840d409ce82f'']"
    using DataSource_Read_drops_segment_id [OF h1 h2 h3 h4,
        where convert = no_conversion_errors and resp = "empty_response None"]
    by (auto simp: no_conversion_errors_def HasError_def child_example_def)
  with h1 h2 h3 h4 show ?thesis by blast
qed

text \<open>
  C10. Whatever provider data the data source's \<open>Configure\<close> is called with, the data
  source of the caller is the same after the call, and the client of a data source that
  \<open>NewSegmentPortsDataSource\<close> has made is still \<open>nil\<close>: the assignment of the client
  reaches only the method's copy of the receiver.
\<close>

theorem DataSource_Configure_leaves_client_nil:
  "fst (DataSource_Configure d providerData) = d
   \<and> DataSource_client (fst (DataSource_Configure (NewSegmentPortsDataSource ()) providerData))
       = None
   \<and> fst (DataSource_Configure_body d (Some (API_Client c))) = d\<lparr>DataSource_client := Some c\<rparr>"
  by (simp add: DataSource_Configure_def DataSource_Configure_body_def
        NewSegmentPortsDataSource_def Let_def split_beta)

lemma DataSource_Read_without_client_panics:
  "DataSource_client d = None
     \<Longrightarrow> outcome (DataSource_Read L convert d req resp) = Panic nil_dereference"
  by (simp add: DataSource_Read_def Let_def)

lemma Read_without_client_panics:
  "Resource_client r = None \<Longrightarrow> \<not> HasError (Append (Diagnostics resp) (Get_diags req))
     \<Longrightarrow> outcome (Read L convert r req resp) = Panic nil_dereference"
  by (simp add: Read_def Let_def)

lemma Resource_Configure_stores_client:
  "fst (Resource_Configure r (Some (API_Client c))) = r\<lparr>Resource_client := Some c\<rparr>"
  by (simp add: Resource_Configure_def)

section \<open>Properties of the provider\<close>

subsection \<open>The four settings\<close>

lemma set_AddAttributeWarning:
  "set (AddAttributeWarning path summary detail diags)
     = insert \<lparr>Severity = SeverityWarning, Summary = summary, Detail = detail,
                AttributePath = Some path\<rparr> (set diags)"
  by (auto simp add: AddAttributeWarning_def set_Append)

lemma HasError_AddAttributeWarning:
  "HasError (AddAttributeWarning path summary detail diags) = HasError diags"
  by (simp add: AddAttributeWarning_def HasError_Append) (simp add: HasError_def)

lemma HasError_warn:
  "HasError (warn_insecure diags) = HasError diags"
  "HasError (warn_hostname diags) = HasError diags"
  "HasError (warn_username diags) = HasError diags"
  "HasError (warn_password diags) = HasError diags"
  by (simp_all add: warn_insecure_def warn_hostname_def warn_username_def warn_password_def
        HasError_AddAttributeWarning)

lemma set_warn:
  "set (warn_insecure diags) = insert insecure_warning (set diags)"
  "set (warn_hostname diags) = insert hostname_warning (set diags)"
  "set (warn_username diags) = insert username_warning (set diags)"
  "set (warn_password diags) = insert password_warning (set diags)"
  by (simp_all add: warn_insecure_def warn_hostname_def warn_username_def warn_password_def
        set_AddAttributeWarning insecure_warning_def hostname_warning_def username_warning_def
        password_warning_def missing_warning_def)

lemma defaults_for_missing_warnings:
  "set (snd (defaults_for_missing s diags)) =
     set diags
     \<union> (if insecure s = [] then {insecure_warning} else {})
     \<union> (if hostname s = [] then {hostname_warning} else {})
     \<union> (if username s = [] then {username_warning} else {})
     \<union> (if password s = [] then {password_warning} else {})"
  by (auto simp add: defaults_for_missing_def Let_def set_warn)

lemma override_fields:
  "insecure (override_with_configuration config (from_environment getenv))
     = (if IsNull (NsxtInsecure config) then getenv ''NSXT_INSECURE'' else Bool_String (NsxtInsecure config))"
  "hostname (override_with_configuration config (from_environment getenv))
     = configured_or_environment (NsxtHost config) (getenv ''NSXT_HOSTNAME'')"
  "username (override_with_configuration config (from_environment getenv))
     = configured_or_environment (NsxtUsername config) (getenv ''NSXT_USERNAME'')"
  "password (override_with_configuration config (from_environment getenv))
     = configured_or_environment (NsxtPassword config) (getenv ''NSXT_PASSWORD'')"
  by (simp_all add: override_with_configuration_def from_environment_def configured_or_environment_def)

lemma Bool_String_not_empty: "Bool_String b \<noteq> []"
  by (cases b rule: Bool_String.cases) simp_all

lemma resolved_hostname:
  "hostname (fst (resolve_settings getenv config diags))
     = or_default (configured_or_environment (NsxtHost config) (getenv ''NSXT_HOSTNAME'')) ''127.0.0.1''"
  by (simp add: resolve_settings_def defaults_for_missing_def override_with_configuration_def
        from_environment_def Let_def or_default_def configured_or_environment_def)

lemma resolved_username:
  "username (fst (resolve_settings getenv config diags))
     = or_default (configured_or_environment (NsxtUsername config) (getenv ''NSXT_USERNAME'')) ''admin''"
  by (simp add: resolve_settings_def defaults_for_missing_def override_with_configuration_def
        from_environment_def Let_def or_default_def configured_or_environment_def)

lemma resolved_password:
  "password (fst (resolve_settings getenv config diags))
     = or_default (configured_or_environment (NsxtPassword config) (getenv ''NSXT_PASSWORD'')) ''password''"
  by (simp add: resolve_settings_def defaults_for_missing_def override_with_configuration_def
        from_environment_def Let_def or_default_def configured_or_environment_def)

lemma resolved_insecure:
  "insecure (fst (resolve_settings getenv config diags))
     = (if IsNull (NsxtInsecure config) then getenv ''NSXT_INSECURE'' else Bool_String (NsxtInsecure config))"
  by (simp add: resolve_settings_def defaults_for_missing_def override_with_configuration_def
        from_environment_def Let_def)

lemma resolved_no_error:
  "HasError (snd (resolve_settings getenv config diags)) = HasError diags"
  by (simp add: resolve_settings_def defaults_for_missing_def Let_def HasError_warn)

lemma resolved_warnings:
  "set (snd (resolve_settings getenv config diags)) =
     set diags
     \<union> (if IsNull (NsxtInsecure config) \<and> getenv ''NSXT_INSECURE'' = [] then {insecure_warning} else {})
     \<union> (if configured_or_environment (NsxtHost config) (getenv ''NSXT_HOSTNAME'') = [] then {hostname_warning} else {})
     \<union> (if configured_or_environment (NsxtUsername config) (getenv ''NSXT_USERNAME'') = [] then {username_warning} else {})
     \<union> (if configured_or_environment (NsxtPassword config) (getenv ''NSXT_PASSWORD'') = [] then {password_warning} else {})"
  unfolding resolve_settings_def defaults_for_missing_warnings override_fields
  by (simp add: Bool_String_not_empty)

text \<open>
  C7, as the code has it. Host, username and password are each resolved to the value
  of the configuration where it is not null and to the environment variable otherwise,
  and then to the default (\<open>127.0.0.1\<close>, \<open>admin\<close>, \<open>password\<close>) where that value is
  the empty string, whether it came from the configuration or from the environment. A
  warning, never an error, is added for each of the four settings whose value is empty
  at that point, and for no other; for \<open>insecure\<close> that is when the configuration is
  null and \<open>NSXT_INSECURE\<close> is empty. Nothing is said of the value of \<open>insecure\<close>.
\<close>

theorem settings_resolved_with_defaults_for_empty:
  "hostname (fst (resolve_settings getenv config diags))
     = or_default (configured_or_environment (NsxtHost config) (getenv ''NSXT_HOSTNAME''))
         ''127.0.0.1''
   \<and> username (fst (resolve_settings getenv config diags))
     = or_default (configured_or_environment (NsxtUsername config) (getenv ''NSXT_USERNAME''))
         ''admin''
   \<and> password (fst (resolve_settings getenv config diags))
     = or_default (configured_or_environment (NsxtPassword config) (getenv ''NSXT_PASSWORD''))
         ''password''
   \<and> set (snd (resolve_settings getenv config diags)) =
       set diags
       \<union> (if IsNull (NsxtInsecure config) \<and> getenv ''NSXT_INSECURE'' = []
          then {insecure_warning} else {})
       \<union> (if configured_or_environment (NsxtHost config) (getenv ''NSXT_HOSTNAME'') = []
          then {hostname_warning} else {})
       \<union> (if configured_or_environment (NsxtUsername config) (getenv ''NSXT_USERNAME'') = []
          then {username_warning} else {})
       \<union> (if configured_or_environment (NsxtPassword config) (getenv ''NSXT_PASSWORD'') = []
          then {password_warning} else {})
   \<and> HasError (snd (resolve_settings getenv config diags)) = HasError diags
   \<and> map Severity [insecure_warning, hostname_warning, username_warning, password_warning]
     = [SeverityWarning, SeverityWarning, SeverityWarning, SeverityWarning]"
  by (simp add: resolved_hostname resolved_username resolved_password resolved_warnings
        resolved_no_error insecure_warning_def hostname_warning_def username_warning_def
        password_warning_def missing_warning_def)

text \<open>
  The claim fails where the configuration sets the host to the empty string while
  \<open>NSXT_HOSTNAME\<close> is set: the host is neither the configured value nor the variable's
  but the default; and with nothing set for \<open>insecure\<close> that setting stays empty and
  is not \<open>false\<close>.
\<close>

theorem empty_configured_host_counterexample:
  "NsxtHost empty_host_configuration = Known []
   \<and> hostname_only ''NSXT_HOSTNAME'' = ''nsx.example.com''
   \<and> fst (resolve_settings hostname_only empty_host_configuration [])
      = \<lparr>insecure = [], hostname = ''127.0.0.1'', username = ''admin'',
         password = ''password''\<rparr>"
  by (simp add: resolve_settings_def defaults_for_missing_def override_with_configuration_def
        from_environment_def Let_def hostname_only_def empty_host_configuration_def)

subsection \<open>The login\<close>

lemma enc_creds_example:
  "enc_creds ''admin'' ''pass word'' = ''j_password=pass+word&j_username=admin''"
  by (simp add: enc_creds_def QueryEscape_def escape_byte_def is_unreserved_def upperhex_def)

lemma resolve_example:
  "resolve_settings getenv example_configuration [] =
     (\<lparr>insecure = ''true'', hostname = ''https://nsx.example.com'', username = ''admin'',
       password = ''pass word''\<rparr>, [])"
  by (simp add: resolve_settings_def defaults_for_missing_def override_with_configuration_def
        from_environment_def example_configuration_def)

lemma example_configuration_known:
  "IsUnknown (NsxtInsecure example_configuration) = False"
  "IsUnknown (NsxtHost example_configuration) = False"
  "IsUnknown (NsxtUsername example_configuration) = False"
  "IsUnknown (NsxtPassword example_configuration) = False"
  by (simp_all add: example_configuration_def)

text \<open>
  Whatever the configuration and the environment: once the login request is built and
  answered with another status than 200, \<open>Configure\<close> panics.
\<close>

lemma Configure_panics_on_other_status:
  assumes "\<not> HasError (Append (Configure_Diagnostics resp) (Get_diags req))"
    and "\<not> IsUnknown (NsxtHost (Get_value req))"
    and "\<not> IsUnknown (NsxtUsername (Get_value req))"
    and "\<not> IsUnknown (NsxtPassword (Get_value req))"
    and "http_NewRequest L ''POST''
           (or_default (configured_or_environment (NsxtHost (Get_value req))
                          (getenv ''NSXT_HOSTNAME'')) ''127.0.0.1'' @ ''/api/session/create'')
           (Some (RawBytes (enc_creds
              (or_default (configured_or_environment (NsxtUsername (Get_value req))
                             (getenv ''NSXT_USERNAME'')) ''admin'')
              (or_default (configured_or_environment (NsxtPassword (Get_value req))
                             (getenv ''NSXT_PASSWORD'')) ''password''))))
         = Inr request"
    and "http_Do \<lparr>Timeout = 10\<rparr> request = Inr response"
    and "StatusCode response \<noteq> 200"
  shows "outcome (Configure L getenv http_Do req resp Host0) = Panic nil_dereference"
    and "requests (Configure L getenv http_Do req resp Host0) = [request]"
  using assms
  by (simp_all add: Configure_def Let_def split_beta resolved_hostname resolved_username
        resolved_password resolved_no_error)

text \<open>
  C5. The claim: when the login completes without a transport error but with another
  status than 200, configuration fails with a fatal diagnostic and hands no client to
  the adapters. The code: in that branch the detail of the diagnostic is built from the
  error of \<open>Client.Do\<close>, which is \<open>nil\<close> there, so \<open>Configure\<close> panics before the
  diagnostic is added. Here the login is refused with status 401.
\<close>

theorem Configure_panics_when_login_is_refused:
  "StatusCode unauthorized = 401
   \<and> Configure plain_url (\<lambda>variable. []) (\<lambda>client request. Inr unauthorized)
        (got example_configuration) empty_ConfigureResponse []
      = \<lparr>requests = [example_login_request],
         tflog = [(LevelInfo, ''Configuring NSX InterVLAN Routing client'', []),
                  (LevelDebug, ''Creating NSX-T API client'', [])],
         outcome = Panic nil_dereference,
         Host = ''https://nsx.example.com''\<rparr>"
  by (simp add: Configure_def Let_def got_def example_configuration_known resolve_example
        enc_creds_example http_NewRequest_def plain_url_def unauthorized_def
        example_login_request_def HasError_def empty_ConfigureResponse_def)

subsection \<open>What the provider registers\<close>

text \<open>
  C8. The claim: the provider registers one managed resource type, \<open>segment_port\<close>,
  and one data source type, \<open>segment_ports\<close>. The code: \<open>Resources\<close> returns the
  empty list, so no resource type is registered, although the package defines
  \<open>NewSegmentPortResource\<close>; \<open>DataSources\<close> returns the one constructor
  \<open>NewSegmentPortsDataSource\<close>, whose type name ends in \<open>_segment_ports\<close> and whose
  schema has the one attribute \<open>segment_id\<close>.
\<close>

theorem Resources_registers_no_resource:
  "Resources p = []
   \<and> resource_types p = []
   \<and> DataSources p = [NewSegmentPortsDataSource]
   \<and> data_source_types p = [''nsxt-intervlan-routing_segment_ports'']
   \<and> map fst DataSource_Schema = [''segment_id'']
   \<and> Resource_Metadata ''nsxt-intervlan-routing'' = ''nsxt-intervlan-routing_segment_port''
   \<and> take 2 (map fst Resource_Schema) = [''segment_id'', ''port_id'']"
  by (simp add: Resources_def resource_types_def DataSources_def data_source_types_def
        DataSource_Metadata_def Provider_Metadata_def DataSource_Schema_def
        Resource_Metadata_def Resource_Schema_def)

end
